theory Spec2Isabelle
  imports Main "HOL-Library.Word"
begin

section \<open>The S3 to OneDrive uploader (index.js)\<close>

text \<open>
  The Lambda function of index.js downloads the object named by an S3 notification to a
  temporary file, looks up a shared OneDrive folder by name and uploads the file there.
  Everything it does is a call to the outside world (S3, the local file system, the token
  endpoint, the Graph API), so the model takes the world as a record of answers and returns,
  next to the result, the list of effects in the order the code issues them.

  Strings are byte strings: a JavaScript string is represented by its UTF-8 encoding.
  Console output is not modelled.
\<close>

subsection \<open>Values, errors and completions\<close>

text \<open>
  The values a parsed HTTP response body can hold, plus \<open>undefined\<close>, the value of a missing
  property. An object is the list of its own properties, each key once. Numbers are integers:
  the code only tests them for truthiness.
\<close>

datatype jsval =
    JUndefined
  | JNull
  | JBool bool
  | JNum int
  | JStr string
  | JArr "jsval list"
  | JObj "(string \<times> jsval) list"

text \<open>JavaScript's ToBoolean, as used by \<open>!x\<close> and by the callback of \<open>Array.prototype.find\<close>.\<close>

fun truthy :: "jsval \<Rightarrow> bool" where
  "truthy JUndefined = False"
| "truthy JNull = False"
| "truthy (JBool b) = b"
| "truthy (JNum n) = (n \<noteq> 0)"
| "truthy (JStr s) = (s \<noteq> [])"
| "truthy (JArr xs) = True"
| "truthy (JObj kvs) = True"

text \<open>
  Thrown values. \<open>Error\<close> is what \<open>new Error(msg)\<close> builds and what the libraries reject with;
  \<open>TypeError\<close> and \<open>URIError\<close> are raised by the runtime itself.
  Every thrown value is taken to be an error object whose message is a string.
\<close>

datatype js_error = Error string | TypeError string | URIError string

fun message :: "js_error \<Rightarrow> string" where
  "message (Error m) = m"
| "message (TypeError m) = m"
| "message (URIError m) = m"

text \<open>
  How an awaited call ends: with a value, with a thrown error, or never (a promise that is
  never settled; the code sets no timeout anywhere).
\<close>

datatype 'a completion = Returns 'a | Throws js_error | Hangs

text \<open>The message of the runtime's TypeError for a property read on undefined or null (V8's wording).\<close>

definition cannot_read :: "string \<Rightarrow> string \<Rightarrow> string" where
  "cannot_read base prop =
     ''Cannot read properties of '' @ base @ '' (reading '' @ [CHR 0x27] @ prop @ [CHR 0x27] @ '')''"

text \<open>
  Property read \<open>v.p\<close>: a TypeError on undefined and null, the stored value on an object that
  has the key, undefined otherwise. None of the property names the code reads is an inherited
  property of a string, number, boolean or array.
\<close>

fun get_prop :: "jsval \<Rightarrow> string \<Rightarrow> jsval completion" where
  "get_prop JUndefined p = Throws (TypeError (cannot_read ''undefined'' p))"
| "get_prop JNull p = Throws (TypeError (cannot_read ''null'' p))"
| "get_prop (JObj kvs) p = Returns (case map_of kvs p of None \<Rightarrow> JUndefined | Some v \<Rightarrow> v)"
| "get_prop (JBool b) p = Returns JUndefined"
| "get_prop (JNum n) p = Returns JUndefined"
| "get_prop (JStr s) p = Returns JUndefined"
| "get_prop (JArr xs) p = Returns JUndefined"

subsection \<open>Library functions the handler calls\<close>

text \<open>Decimal rendering of a number in a template literal (\<open>Date.now()\<close> is a non-negative integer).\<close>

definition digit_char :: "nat \<Rightarrow> char" where
  "digit_char d = char_of (48 + d)"

fun show_nat :: "nat \<Rightarrow> string" where
  "show_nat n = (if n < 10 then [digit_char n] else show_nat (n div 10) @ [digit_char (n mod 10)])"

declare show_nat.simps [simp del]

text \<open>
  \<open>JSON.stringify\<close> on a string: the quotation mark and the backslash are escaped, control
  characters below 0x20 are written with their short escape or as \<open>\u00XX\<close> (lower-case hex
  digits), every other character is kept.
\<close>

definition hex_char :: "nat \<Rightarrow> char" where
  "hex_char d = (if d < 10 then char_of (48 + d) else char_of (87 + d))"

definition json_escape_char :: "char \<Rightarrow> string" where
  "json_escape_char c =
     (if c = CHR 0x22 then [CHR 0x5C, CHR 0x22]
      else if c = CHR 0x5C then [CHR 0x5C, CHR 0x5C]
      else if c = CHR 0x08 then [CHR 0x5C, CHR ''b'']
      else if c = CHR 0x09 then [CHR 0x5C, CHR ''t'']
      else if c = CHR 0x0A then [CHR 0x5C, CHR ''n'']
      else if c = CHR 0x0C then [CHR 0x5C, CHR ''f'']
      else if c = CHR 0x0D then [CHR 0x5C, CHR ''r'']
      else if (of_char c :: nat) < 32
        then [CHR 0x5C, CHR ''u'', CHR ''0'', CHR ''0'',
              hex_char ((of_char c :: nat) div 16), hex_char ((of_char c :: nat) mod 16)]
      else [c])"

definition json_quote :: "string \<Rightarrow> string" where
  "json_quote s = [CHR 0x22] @ concat (map json_escape_char s) @ [CHR 0x22]"

text \<open>\<open>JSON.stringify({ message: m })\<close> and \<open>JSON.stringify({ message: m, error: e })\<close>.\<close>

definition json_message :: "string \<Rightarrow> string" where
  "json_message m = ''{'' @ json_quote ''message'' @ '':'' @ json_quote m @ ''}''"

definition json_message_error :: "string \<Rightarrow> string \<Rightarrow> string" where
  "json_message_error m e =
     ''{'' @ json_quote ''message'' @ '':'' @ json_quote m @ '','' @
     json_quote ''error'' @ '':'' @ json_quote e @ ''}''"

text \<open>
  \<open>decodeURIComponent\<close> (ECMAScript, Decode with an empty reserved set). A percent sign must
  be followed by two hexadecimal digits; an octet with the top bit set must start a valid UTF-8
  sequence whose other octets are escaped too. Anything else throws URIError. On UTF-8 byte
  strings the decoded text of a valid sequence is the sequence of its octets.
\<close>

definition hex_val :: "char \<Rightarrow> nat option" where
  "hex_val c =
     (let n = (of_char c :: nat)
      in if 48 \<le> n \<and> n \<le> 57 then Some (n - 48)
         else if 65 \<le> n \<and> n \<le> 70 then Some (n - 55)
         else if 97 \<le> n \<and> n \<le> 102 then Some (n - 87)
         else None)"

datatype uri_token = Plain char | Octet nat | Malformed

fun uri_tokens :: "string \<Rightarrow> uri_token list" where
  "uri_tokens [] = []"
| "uri_tokens [c] = (if c = CHR ''%'' then [Malformed] else [Plain c])"
| "uri_tokens [c, h1] = (if c = CHR ''%'' then [Malformed] else Plain c # uri_tokens [h1])"
| "uri_tokens (c # h1 # h2 # rest) =
     (if c = CHR ''%''
      then (case (hex_val h1, hex_val h2) of
              (Some a, Some b) \<Rightarrow> Octet (16 * a + b) # uri_tokens rest
            | _ \<Rightarrow> [Malformed])
      else Plain c # uri_tokens (h1 # h2 # rest))"

text \<open>The number of leading one bits of an octet (5 stands for five or more).\<close>

definition lead_ones :: "nat \<Rightarrow> nat" where
  "lead_ones b =
     (if b < 0x80 then 0 else if b < 0xC0 then 1 else if b < 0xE0 then 2
      else if b < 0xF0 then 3 else if b < 0xF8 then 4 else 5)"

definition is_cont :: "nat \<Rightarrow> bool" where
  "is_cont b = (0x80 \<le> b \<and> b < 0xC0)"

text \<open>
  Whether the octets are the UTF-8 encoding of one code point: continuation octets in place,
  no overlong form, no surrogate, nothing above U+10FFFF.
\<close>

fun valid_utf8 :: "nat list \<Rightarrow> bool" where
  "valid_utf8 [b0, b1] = (is_cont b1 \<and> 0xC2 \<le> b0)"
| "valid_utf8 [b0, b1, b2] =
     (is_cont b1 \<and> is_cont b2 \<and>
      (let cp = (b0 mod 16) * 4096 + (b1 mod 64) * 64 + b2 mod 64
       in 0x800 \<le> cp \<and> \<not> (0xD800 \<le> cp \<and> cp \<le> 0xDFFF)))"
| "valid_utf8 [b0, b1, b2, b3] =
     (is_cont b1 \<and> is_cont b2 \<and> is_cont b3 \<and>
      (let cp = (b0 mod 8) * 262144 + (b1 mod 64) * 4096 + (b2 mod 64) * 64 + b3 mod 64
       in 0x10000 \<le> cp \<and> cp \<le> 0x10FFFF))"
| "valid_utf8 bs = False"

fun octet_of :: "uri_token \<Rightarrow> nat option" where
  "octet_of (Octet b) = Some b"
| "octet_of (Plain c) = None"
| "octet_of Malformed = None"

definition uri_malformed :: js_error where
  "uri_malformed = URIError ''URI malformed''"

fun prepend :: "string \<Rightarrow> js_error + string \<Rightarrow> js_error + string" where
  "prepend s (Inl e) = Inl e"
| "prepend s (Inr t) = Inr (s @ t)"

function decode_tokens :: "uri_token list \<Rightarrow> js_error + string" where
  "decode_tokens [] = Inr []"
| "decode_tokens (Plain c # ts) = prepend [c] (decode_tokens ts)"
| "decode_tokens (Malformed # ts) = Inl uri_malformed"
| "decode_tokens (Octet b # ts) =
     (let n = lead_ones b
      in if n = 0 then prepend [char_of b] (decode_tokens ts)
         else if n = 1 \<or> 4 < n then Inl uri_malformed
         else (let more = map octet_of (take (n - 1) ts)
               in if length more = n - 1 \<and> None \<notin> set more \<and> valid_utf8 (b # map the more)
                  then prepend (map char_of (b # map the more)) (decode_tokens (drop (n - 1) ts))
                  else Inl uri_malformed))"
  by pat_completeness auto
termination
  by (relation "measure length") auto

definition decodeURIComponent :: "string \<Rightarrow> js_error + string" where
  "decodeURIComponent s = decode_tokens (uri_tokens s)"

text \<open>
  \<open>path.extname\<close> (POSIX): trailing slashes are ignored; the extension of the last path
  component runs from its last dot to its end, and is empty when the component has no dot,
  when nothing stands before the last dot, or when the component is \<open>..\<close>.
\<close>

definition extname :: "string \<Rightarrow> string" where
  "extname p =
     (let trimmed = rev (dropWhile (\<lambda>c. c = CHR ''/'') (rev p));
          base = rev (takeWhile (\<lambda>c. c \<noteq> CHR ''/'') (rev trimmed));
          ext = rev (takeWhile (\<lambda>c. c \<noteq> CHR ''.'') (rev base));
          stem = take (length base - length ext - 1) base
      in if CHR ''.'' \<notin> set base \<or> stem = [] \<or> base = ''..'' then []
         else CHR ''.'' # ext)"

subsection \<open>The outside world and the trace of effects\<close>

text \<open>
  The notification the runtime passes to the handler: \<open>event.Records\<close>, each record with
  \<open>s3.bucket.name\<close> and \<open>s3.object.key\<close>.
\<close>

record notification =
  bucket_name :: string
  object_key :: string

record event =
  Records :: "notification list"

type_synonym buffer = "8 word list"

text \<open>
  The HTTP requests of the code, by endpoint, with the values the code puts into them:
  \<^item> \<open>PostToken client_id refresh_token\<close>: POST to the token endpoint, with the two
    environment values in the form body;
  \<^item> \<open>GetSharedWithMe accessToken\<close>: GET \<open>/me/drive/sharedWithMe\<close>, the token in the
    Authorization header;
  \<^item> \<open>PutContent driveId folderItemId fileName accessToken fileBuffer\<close>: PUT to
    \<open>/drives/{driveId}/items/{folderItemId}:/{fileName}:/content\<close>.
\<close>

datatype http_request =
    PostToken "string option" "string option"
  | GetSharedWithMe jsval
  | PutContent jsval jsval string jsval buffer

record response =
  status :: nat
  data :: jsval

text \<open>
  The effects on the outside world: the S3 read piped into a local file
  (\<open>S3Download bucket key path\<close>), an HTTP request, and the removal of a local file. The reads
  of the local file system (\<open>fs.stat\<close>, \<open>fs.readFile\<close>) are answers of the world and leave no
  entry.
\<close>

datatype io_event =
    S3Download string string string
  | Http http_request
  | Unlink string

fun is_http :: "io_event \<Rightarrow> bool" where
  "is_http (Http r) = True"
| "is_http (S3Download b k p) = False"
| "is_http (Unlink p) = False"

fun is_token_request :: "io_event \<Rightarrow> bool" where
  "is_token_request (Http (PostToken c r)) = True"
| "is_token_request e = False"

fun is_shared_request :: "io_event \<Rightarrow> bool" where
  "is_shared_request (Http (GetSharedWithMe t)) = True"
| "is_shared_request e = False"

fun is_upload_request :: "io_event \<Rightarrow> bool" where
  "is_upload_request (Http (PutContent d i n t b)) = True"
| "is_upload_request e = False"

fun is_unlink :: "io_event \<Rightarrow> bool" where
  "is_unlink (Unlink p) = True"
| "is_unlink e = False"

text \<open>
  What the two streams of a download and the \<open>fs.stat\<close> of its finish handler report, in the
  order the event loop delivers it.
\<close>

datatype stream_event =
    ReadEnd
  | ReadError js_error
  | WriteFinish
  | WriteError js_error
  | StatSettled "js_error + nat"

text \<open>
  The world of one invocation: the environment variables, the clock, and the answer to every
  call. \<open>axios w n r\<close> is the answer to request \<open>r\<close> when it is the HTTP request number \<open>n\<close>
  of the invocation (counted from 0): \<open>Returns\<close> a response, or \<open>Throws\<close> what axios rejects
  with (a transport failure, or a status that axios itself refuses).
\<close>

record world =
  env_AZURE_CLIENT_ID :: "string option"
  env_ONEDRIVE_REFRESH_TOKEN :: "string option"
  env_ONEDRIVE_SHARED_FOLDER :: "string option"
  date_now :: nat
  s3_streams :: "string \<Rightarrow> string \<Rightarrow> string \<Rightarrow> stream_event list"
  fs_stat :: "string \<Rightarrow> nat completion"
  fs_readFile :: "string \<Rightarrow> buffer completion"
  axios :: "nat \<Rightarrow> http_request \<Rightarrow> response completion"

text \<open>An asynchronous computation: from the trace so far to its completion and the new trace.\<close>

type_synonym 'a io = "io_event list \<Rightarrow> 'a completion \<times> io_event list"

definition bind_io :: "'a io \<Rightarrow> ('a \<Rightarrow> 'b io) \<Rightarrow> 'b io" where
  "bind_io m f = (\<lambda>t. case m t of
       (Returns x, t') \<Rightarrow> f x t'
     | (Throws e, t') \<Rightarrow> (Throws e, t')
     | (Hangs, t') \<Rightarrow> (Hangs, t'))"

definition await :: "'a completion \<Rightarrow> 'a io" where
  "await c = (\<lambda>t. (c, t))"

definition http :: "world \<Rightarrow> http_request \<Rightarrow> response io" where
  "http w r = (\<lambda>t. (axios w (length (filter is_http t)) r, t @ [Http r]))"

subsection \<open>getOneDriveAccessToken\<close>

text \<open>
  The catch block logs and rethrows the same error, so a thrown error passes through
  unchanged; this holds for every try/catch of the three helper functions.
\<close>

definition getOneDriveAccessToken :: "world \<Rightarrow> jsval io" where
  "getOneDriveAccessToken w =
     (let refreshToken = env_ONEDRIVE_REFRESH_TOKEN w
      in bind_io (http w (PostToken (env_AZURE_CLIENT_ID w) refreshToken)) (\<lambda>response.
           if status response = 200
           then await (get_prop (data response) ''access_token'')
           else await (Throws (Error ''Failed to fetch OneDrive access token.''))))"

subsection \<open>resolveSharedFolder\<close>

text \<open>
  \<open>item.name === folderName\<close>, where \<open>folderName\<close> is an environment value: a string, or
  undefined when the variable is not set.
\<close>

definition strict_eq_env :: "jsval \<Rightarrow> string option \<Rightarrow> bool" where
  "strict_eq_env v x = (case x of None \<Rightarrow> v = JUndefined | Some s \<Rightarrow> v = JStr s)"

text \<open>The callback of find: \<open>(item) => item.name === folderName && item.folder\<close>.\<close>

definition folder_matches :: "string option \<Rightarrow> jsval \<Rightarrow> jsval completion" where
  "folder_matches folderName item =
     (case get_prop item ''name'' of
        Returns n \<Rightarrow>
          if strict_eq_env n folderName then get_prop item ''folder'' else Returns (JBool False)
      | Throws e \<Rightarrow> Throws e
      | Hangs \<Rightarrow> Hangs)"

text \<open>
  \<open>Array.prototype.find\<close>: the first element on which the callback returns a truthy value,
  undefined when there is none; an error thrown by the callback ends the scan.
\<close>

fun array_find :: "(jsval \<Rightarrow> jsval completion) \<Rightarrow> jsval list \<Rightarrow> jsval completion" where
  "array_find p [] = Returns JUndefined"
| "array_find p (x # xs) =
     (case p x of
        Returns r \<Rightarrow> if truthy r then Returns x else array_find p xs
      | Throws e \<Rightarrow> Throws e
      | Hangs \<Rightarrow> Hangs)"

text \<open>
  \<open>response.data.value.find(callback)\<close>: only an array has the method; on undefined or null
  the property read throws, on any other value the call throws.
\<close>

fun call_find :: "jsval \<Rightarrow> (jsval \<Rightarrow> jsval completion) \<Rightarrow> jsval completion" where
  "call_find (JArr xs) p = array_find p xs"
| "call_find JUndefined p = Throws (TypeError (cannot_read ''undefined'' ''find''))"
| "call_find JNull p = Throws (TypeError (cannot_read ''null'' ''find''))"
| "call_find v p = Throws (TypeError ''response.data.value.find is not a function'')"

text \<open>The interpolation of an environment value into a template literal.\<close>

definition env_text :: "string option \<Rightarrow> string" where
  "env_text x = (case x of None \<Rightarrow> ''undefined'' | Some s \<Rightarrow> s)"

definition not_found_message :: "string option \<Rightarrow> string" where
  "not_found_message folderName =
     ''Shared folder '' @ [CHR 0x22] @ env_text folderName @ [CHR 0x22] @ '' not found.''"

record folder_ref =
  driveId :: jsval
  itemId :: jsval

definition resolveSharedFolder :: "world \<Rightarrow> string option \<Rightarrow> folder_ref io" where
  "resolveSharedFolder w folderName =
     bind_io (getOneDriveAccessToken w) (\<lambda>accessToken.
     bind_io (http w (GetSharedWithMe accessToken)) (\<lambda>response.
     bind_io (await (get_prop (data response) ''value'')) (\<lambda>items.
     bind_io (await (call_find items (folder_matches folderName))) (\<lambda>sharedFolder.
       if \<not> truthy sharedFolder
       then await (Throws (Error (not_found_message folderName)))
       else
         bind_io (await (get_prop sharedFolder ''remoteItem'')) (\<lambda>remoteItem.
         bind_io (await (get_prop remoteItem ''parentReference'')) (\<lambda>parentReference.
         bind_io (await (get_prop parentReference ''driveId'')) (\<lambda>d.
         bind_io (await (get_prop remoteItem ''id'')) (\<lambda>i.
           await (Returns \<lparr>driveId = d, itemId = i\<rparr>)))))))))"

subsection \<open>uploadFileToSharedFolder\<close>

definition uploadFileToSharedFolder ::
    "world \<Rightarrow> jsval \<Rightarrow> jsval \<Rightarrow> string \<Rightarrow> string \<Rightarrow> jsval io" where
  "uploadFileToSharedFolder w drive folderItemId filePath fileName =
     bind_io (getOneDriveAccessToken w) (\<lambda>accessToken.
     bind_io (await (fs_readFile w filePath)) (\<lambda>fileBuffer.
     bind_io (http w (PutContent drive folderItemId fileName accessToken fileBuffer)) (\<lambda>response.
       if status response = 201 \<or> status response = 200
       then await (Returns (data response))
       else await (Throws (Error ''Failed to upload file to shared folder.'')))))"

subsection \<open>downloadFileFromS3\<close>

text \<open>
  The promise the function returns. \<open>resolve\<close> and \<open>reject\<close> are the two functions the
  Promise constructor hands to the executor: on a promise that is already settled they do
  nothing.
\<close>

datatype promise = Pending | Fulfilled | Rejected js_error

fun resolve :: "promise \<Rightarrow> promise" where
  "resolve Pending = Fulfilled"
| "resolve p = p"

fun reject :: "js_error \<Rightarrow> promise \<Rightarrow> promise" where
  "reject e Pending = Rejected e"
| "reject e p = p"

text \<open>
  The state of a download: the promise, and the number of \<open>fs.stat\<close> calls of the finish
  handler that have not been answered yet.
\<close>

record download =
  settled :: promise
  stats_pending :: nat

definition download_start :: download where
  "download_start = \<lparr>settled = Pending, stats_pending = 0\<rparr>"

text \<open>
  One event and the handler registered for it:
  \<^item> an error of the read stream or of the write stream calls \<open>reject(error)\<close>;
  \<^item> finish of the write stream starts \<open>fs.stat(downloadPath)\<close> and waits for it;
  \<^item> when that stat answers, the finish handler calls \<open>resolve()\<close>, or \<open>reject(err)\<close> when
    the stat failed (an answer with no stat outstanding cannot happen and changes nothing);
  \<^item> no handler is registered for the end of the read stream.
\<close>

fun download_step :: "download \<Rightarrow> stream_event \<Rightarrow> download" where
  "download_step s ReadEnd = s"
| "download_step s (ReadError e) = s\<lparr>settled := reject e (settled s)\<rparr>"
| "download_step s WriteFinish = s\<lparr>stats_pending := Suc (stats_pending s)\<rparr>"
| "download_step s (StatSettled r) =
     (if stats_pending s = 0 then s
      else (case r of
              Inr stats \<Rightarrow> s\<lparr>settled := resolve (settled s), stats_pending := stats_pending s - 1\<rparr>
            | Inl err \<Rightarrow> s\<lparr>settled := reject err (settled s), stats_pending := stats_pending s - 1\<rparr>))"
| "download_step s (WriteError e) = s\<lparr>settled := reject e (settled s)\<rparr>"

definition download_run :: "stream_event list \<Rightarrow> download" where
  "download_run evs = foldl download_step download_start evs"

definition downloadFileFromS3 :: "world \<Rightarrow> string \<Rightarrow> string \<Rightarrow> string \<Rightarrow> unit io" where
  "downloadFileFromS3 w bucketName fileKey downloadPath =
     (\<lambda>t. (case settled (download_run (s3_streams w bucketName fileKey downloadPath)) of
              Pending \<Rightarrow> Hangs
            | Fulfilled \<Rightarrow> Returns ()
            | Rejected e \<Rightarrow> Throws e,
            t @ [S3Download bucketName fileKey downloadPath]))"

subsection \<open>The handler\<close>

record outcome =
  statusCode :: nat
  body :: string

text \<open>
  \<open>path.join("/tmp", name)\<close>: the name built by the handler has no slash and is neither
  \<open>.\<close> nor \<open>..\<close>, so joining only puts the separator in between.
\<close>

definition tmp_path :: "string \<Rightarrow> string" where
  "tmp_path name = ''/tmp/'' @ name"

text \<open>
  The try block. \<open>event.Records[0]\<close> is undefined for an empty array, and reading \<open>s3\<close>
  from it throws a TypeError.
\<close>

definition handler_try :: "world \<Rightarrow> event \<Rightarrow> outcome io" where
  "handler_try w ev =
     (case Records ev of
        [] \<Rightarrow> await (Throws (TypeError (cannot_read ''undefined'' ''s3'')))
      | record # others \<Rightarrow>
          (let bucketName = bucket_name record
           in case decodeURIComponent (object_key record) of
                Inl e \<Rightarrow> await (Throws e)
              | Inr fileKey \<Rightarrow>
                  (let timestamp = date_now w;
                       originalExtension = extname fileKey;
                       downloadPath =
                         tmp_path (''download-'' @ show_nat timestamp @ originalExtension)
                   in bind_io (downloadFileFromS3 w bucketName fileKey downloadPath) (\<lambda>u.
                      bind_io (await (fs_stat w downloadPath)) (\<lambda>fileSize.
                        if fileSize = 0
                        then await (Throws (Error ''Downloaded file is empty.''))
                        else
                          (let sharedFolderName = env_ONEDRIVE_SHARED_FOLDER w
                           in bind_io (resolveSharedFolder w sharedFolderName) (\<lambda>sharedFolder.
                              bind_io (uploadFileToSharedFolder w (driveId sharedFolder)
                                         (itemId sharedFolder) downloadPath fileKey)
                                (\<lambda>uploadSuccess.
                                   if \<not> truthy uploadSuccess
                                   then await (Throws (Error
                                     ''Failed to upload file to shared folder on OneDrive.''))
                                   else await (Returns
                                     \<lparr>statusCode = 200,
                                      body = json_message
                                        (''File uploaded successfully to shared folder '' @
                                         [CHR 0x22] @ env_text sharedFolderName @
                                         [CHR 0x22])\<rparr>)))))))))"

text \<open>The handler: the catch block turns every thrown error into the failure outcome.\<close>

definition handler :: "world \<Rightarrow> event \<Rightarrow> outcome completion \<times> io_event list" where
  "handler w ev =
     (case handler_try w ev [] of
        (Throws err, t) \<Rightarrow>
          (Returns \<lparr>statusCode = 500,
                    body = json_message_error ''Failed to process shared folder'' (message err)\<rparr>,
           t)
      | (Returns r, t) \<Rightarrow> (Returns r, t)
      | (Hangs, t) \<Rightarrow> (Hangs, t))"

subsection \<open>Vocabulary of the properties\<close>

text \<open>
  An entry of the shared-items listing is any value but undefined and null. It is the folder
  of a given name when it is an object whose \<open>name\<close> is exactly that string and whose
  \<open>folder\<close> facet is present and truthy.
\<close>

fun is_entry :: "jsval \<Rightarrow> bool" where
  "is_entry JUndefined = False"
| "is_entry JNull = False"
| "is_entry v = True"

fun is_named_folder :: "string \<Rightarrow> jsval \<Rightarrow> bool" where
  "is_named_folder name (JObj kvs) =
     (map_of kvs ''name'' = Some (JStr name) \<and>
      (case map_of kvs ''folder'' of None \<Rightarrow> False | Some f \<Rightarrow> truthy f))"
| "is_named_folder name v = False"


text \<open>The object keys read from S3 and the remote file names of the uploads, along a trace.\<close>

fun s3_key :: "io_event \<Rightarrow> string option" where
  "s3_key (S3Download b k p) = Some k"
| "s3_key e = None"

fun upload_name :: "io_event \<Rightarrow> string option" where
  "upload_name (Http (PutContent d i n t b)) = Some n"
| "upload_name e = None"

definition s3_keys :: "io_event list \<Rightarrow> string list" where
  "s3_keys t = List.map_filter s3_key t"

definition upload_names :: "io_event list \<Rightarrow> string list" where
  "upload_names t = List.map_filter upload_name t"

subsection \<open>Example worlds\<close>

text \<open>
  A listing with a file and the shared folder \<open>Reports\<close>; a world in which every call
  succeeds (the two token requests are answered with different tokens); the notification of
  the README.
\<close>

definition notes_entry :: jsval where
  "notes_entry =
     JObj [(''name'', JStr ''notes.txt''), (''file'', JObj []),
           (''remoteItem'', JObj [(''id'', JStr ''ITEM0''),
              (''parentReference'', JObj [(''driveId'', JStr ''DRIVE0'')])])]"

definition reports_entry :: jsval where
  "reports_entry =
     JObj [(''name'', JStr ''Reports''), (''folder'', JObj [(''childCount'', JNum 3)]),
           (''remoteItem'', JObj [(''id'', JStr ''ITEM1''),
              (''parentReference'', JObj [(''driveId'', JStr ''DRIVE1'')])])]"

definition token_response :: "string \<Rightarrow> response" where
  "token_response tok = \<lparr>status = 200, data = JObj [(''access_token'', JStr tok)]\<rparr>"

definition listing_response :: response where
  "listing_response = \<lparr>status = 200, data = JObj [(''value'', JArr [notes_entry, reports_entry])]\<rparr>"

definition created_response :: response where
  "created_response = \<lparr>status = 201, data = JObj [(''id'', JStr ''NEWFILE'')]\<rparr>"

fun example_axios :: "nat \<Rightarrow> http_request \<Rightarrow> response completion" where
  "example_axios n (PostToken c r) =
     Returns (token_response (if n = 0 then ''tokenA'' else ''tokenB''))"
| "example_axios n (GetSharedWithMe t) = Returns listing_response"
| "example_axios n (PutContent d i f t b) = Returns created_response"

definition example_world :: world where
  "example_world =
     \<lparr>env_AZURE_CLIENT_ID = Some ''client'',
      env_ONEDRIVE_REFRESH_TOKEN = Some ''refresh'',
      env_ONEDRIVE_SHARED_FOLDER = Some ''Reports'',
      date_now = 1730000000000,
      s3_streams = (\<lambda>b k p. [ReadEnd, WriteFinish, StatSettled (Inr 5)]),
      fs_stat = (\<lambda>p. Returns 5),
      fs_readFile = (\<lambda>p. Returns [1, 2, 3, 4, 5]),
      axios = example_axios\<rparr>"

definition example_event :: event where
  "example_event =
     \<lparr>Records = [\<lparr>bucket_name = ''my-s3-bucket'', object_key = ''example.txt''\<rparr>]\<rparr>"

text \<open>A notification whose key holds an escaped space.\<close>

definition encoded_event :: event where
  "encoded_event =
     \<lparr>Records = [\<lparr>bucket_name = ''my-s3-bucket'', object_key = ''a%20b.txt''\<rparr>]\<rparr>"

text \<open>
  The token endpoint answers 401: axios rejects with its error for a refused status, or, were
  it configured to accept every status, hands the response to the code.
\<close>

fun rejecting_axios :: "nat \<Rightarrow> http_request \<Rightarrow> response completion" where
  "rejecting_axios n (PostToken c r) = Throws (Error ''Request failed with status code 401'')"
| "rejecting_axios n r = example_axios n r"

fun unauthorized_axios :: "nat \<Rightarrow> http_request \<Rightarrow> response completion" where
  "unauthorized_axios n (PostToken c r) =
     Returns \<lparr>status = 401, data = JObj [(''error'', JStr ''invalid_grant'')]\<rparr>"
| "unauthorized_axios n r = example_axios n r"

text \<open>The token endpoint answers 200 with a body that has no \<open>access_token\<close>.\<close>

fun no_token_axios :: "nat \<Rightarrow> http_request \<Rightarrow> response completion" where
  "no_token_axios n (PostToken c r) =
     Returns \<lparr>status = 200, data = JObj [(''token_type'', JStr ''Bearer'')]\<rparr>"
| "no_token_axios n r = example_axios n r"



text \<open>The configured folder \<open>Archive\<close> is not in the listing.\<close>

definition archive_world :: world where
  "archive_world = example_world\<lparr>env_ONEDRIVE_SHARED_FOLDER := Some ''Archive''\<rparr>"


text \<open>
  A world whose shared-items request is answered with the given listing, and a folder entry
  named \<open>Reports\<close> that carries no remote item.
\<close>

fun listing_axios :: "jsval list \<Rightarrow> nat \<Rightarrow> http_request \<Rightarrow> response completion" where
  "listing_axios items n (GetSharedWithMe t) =
     Returns \<lparr>status = 200, data = JObj [(''value'', JArr items)]\<rparr>"
| "listing_axios items n r = example_axios n r"

definition listing_world :: "jsval list \<Rightarrow> world" where
  "listing_world items = example_world\<lparr>axios := listing_axios items\<rparr>"

definition bare_reports_entry :: jsval where
  "bare_reports_entry = JObj [(''name'', JStr ''Reports''), (''folder'', JObj [])]"

section \<open>Properties\<close>

subsection \<open>Sequencing and the helper functions\<close>

lemma await_apply [simp]: "await c t = (c, t)"
  by (simp add: await_def)

lemma bind_io_await [simp]:
  "bind_io (await c) f t = (case c of Returns x \<Rightarrow> f x t | Throws e \<Rightarrow> (Throws e, t) | Hangs \<Rightarrow> (Hangs, t))"
  by (simp add: bind_io_def await_def split: completion.splits)

lemma bind_io_Returns_iff:
  "bind_io m f t = (Returns y, t'') \<longleftrightarrow> (\<exists>x t'. m t = (Returns x, t') \<and> f x t' = (Returns y, t''))"
  by (auto simp: bind_io_def split: prod.splits completion.splits)

lemma token_cases:
  "getOneDriveAccessToken w t =
     (case axios w (length (filter is_http t)) (PostToken (env_AZURE_CLIENT_ID w) (env_ONEDRIVE_REFRESH_TOKEN w)) of
        Returns r \<Rightarrow> if status r = 200 then get_prop (data r) ''access_token''
                     else Throws (Error ''Failed to fetch OneDrive access token.'')
      | Throws e \<Rightarrow> Throws e
      | Hangs \<Rightarrow> Hangs,
      t @ [Http (PostToken (env_AZURE_CLIENT_ID w) (env_ONEDRIVE_REFRESH_TOKEN w))])"
  by (simp add: getOneDriveAccessToken_def Let_def bind_io_def http_def split: completion.splits)

lemma download_apply:
  "downloadFileFromS3 w b k p t =
     (case settled (download_run (s3_streams w b k p)) of
        Pending \<Rightarrow> Hangs | Fulfilled \<Rightarrow> Returns () | Rejected e \<Rightarrow> Throws e,
      t @ [S3Download b k p])"
  by (simp add: downloadFileFromS3_def)








text \<open>The callback of find on the entries of a listing, and the scan.\<close>

lemma named_folder_truthy: "is_named_folder name x \<Longrightarrow> truthy x"
  by (cases x) simp_all

lemma folder_matches_named:
  "is_named_folder name x \<Longrightarrow> \<exists>v. folder_matches (Some name) x = Returns v \<and> truthy v"
  by (cases x) (auto simp: folder_matches_def strict_eq_env_def split: option.splits)

lemma folder_matches_other:
  "is_entry x \<Longrightarrow> \<not> is_named_folder name x \<Longrightarrow>
   \<exists>v. folder_matches (Some name) x = Returns v \<and> \<not> truthy v"
  by (cases x) (auto simp: folder_matches_def strict_eq_env_def split: option.splits)

lemma array_find_first:
  assumes "\<forall>x\<in>set pre. is_entry x \<and> \<not> is_named_folder name x" and "is_named_folder name folder"
  shows "array_find (folder_matches (Some name)) (pre @ folder # post) = Returns folder"
  using assms
proof (induction pre)
  case Nil
  then show ?case using folder_matches_named [of name folder] by auto
next
  case (Cons x pre)
  then obtain v where "folder_matches (Some name) x = Returns v" "\<not> truthy v"
    using folder_matches_other [of x name] by auto
  with Cons show ?case by simp
qed

lemma array_find_none:
  assumes "\<forall>x\<in>set items. is_entry x \<and> \<not> is_named_folder name x"
  shows "array_find (folder_matches (Some name)) items = Returns JUndefined"
  using assms
proof (induction items)
  case Nil
  then show ?case by simp
next
  case (Cons x items)
  then obtain v where "folder_matches (Some name) x = Returns v" "\<not> truthy v"
    using folder_matches_other [of x name] by auto
  with Cons show ?case by simp
qed

lemma resolve_cases:
  assumes "getOneDriveAccessToken w t = (Returns tok, t1)"
    and "axios w (length (filter is_http t1)) (GetSharedWithMe tok) = Returns r"
    and "get_prop (data r) ''value'' = Returns (JArr items)"
    and "array_find (folder_matches folderName) items = Returns found"
  shows "resolveSharedFolder w folderName t =
     (if \<not> truthy found then Throws (Error (not_found_message folderName))
      else (case get_prop found ''remoteItem'' of
              Returns ri \<Rightarrow>
                (case get_prop ri ''parentReference'' of
                   Returns pr \<Rightarrow>
                     (case get_prop pr ''driveId'' of
                        Returns d \<Rightarrow>
                          (case get_prop ri ''id'' of
                             Returns i \<Rightarrow> Returns \<lparr>driveId = d, itemId = i\<rparr>
                           | Throws e \<Rightarrow> Throws e | Hangs \<Rightarrow> Hangs)
                      | Throws e \<Rightarrow> Throws e | Hangs \<Rightarrow> Hangs)
                 | Throws e \<Rightarrow> Throws e | Hangs \<Rightarrow> Hangs)
            | Throws e \<Rightarrow> Throws e | Hangs \<Rightarrow> Hangs),
      t1 @ [Http (GetSharedWithMe tok)])"
  using assms
  by (simp add: resolveSharedFolder_def bind_io_def http_def split: completion.splits)

lemma resolve_Returns:
  assumes "resolveSharedFolder w folderName t = (Returns ref, t')"
  shows "\<exists>tok r items found.
      getOneDriveAccessToken w t =
        (Returns tok, t @ [Http (PostToken (env_AZURE_CLIENT_ID w) (env_ONEDRIVE_REFRESH_TOKEN w))]) \<and>
      t' = t @ [Http (PostToken (env_AZURE_CLIENT_ID w) (env_ONEDRIVE_REFRESH_TOKEN w)),
                Http (GetSharedWithMe tok)] \<and>
      axios w (Suc (length (filter is_http t))) (GetSharedWithMe tok) = Returns r \<and>
      get_prop (data r) ''value'' = Returns (JArr items) \<and>
      array_find (folder_matches folderName) items = Returns found \<and> truthy found"
proof -
  let ?P = "Http (PostToken (env_AZURE_CLIENT_ID w) (env_ONEDRIVE_REFRESH_TOKEN w))"
  have tr: "snd (getOneDriveAccessToken w t) = t @ [?P]"
    by (simp add: token_cases)
  from assms obtain tok t1 where tok: "getOneDriveAccessToken w t = (Returns tok, t1)"
    and rest1: "bind_io (http w (GetSharedWithMe tok)) (\<lambda>response.
     bind_io (await (get_prop (data response) ''value'')) (\<lambda>items.
     bind_io (await (call_find items (folder_matches folderName))) (\<lambda>sharedFolder.
       if \<not> truthy sharedFolder
       then await (Throws (Error (not_found_message folderName)))
       else
         bind_io (await (get_prop sharedFolder ''remoteItem'')) (\<lambda>remoteItem.
         bind_io (await (get_prop remoteItem ''parentReference'')) (\<lambda>parentReference.
         bind_io (await (get_prop parentReference ''driveId'')) (\<lambda>d.
         bind_io (await (get_prop remoteItem ''id'')) (\<lambda>i.
           await (Returns \<lparr>driveId = d, itemId = i\<rparr>)))))))) t1 = (Returns ref, t')"
    unfolding resolveSharedFolder_def bind_io_Returns_iff by blast
  from tok tr have t1: "t1 = t @ [?P]" by simp
  from rest1 obtain r t2 where r: "http w (GetSharedWithMe tok) t1 = (Returns r, t2)"
    and rest2: "bind_io (await (get_prop (data r) ''value'')) (\<lambda>items.
     bind_io (await (call_find items (folder_matches folderName))) (\<lambda>sharedFolder.
       if \<not> truthy sharedFolder
       then await (Throws (Error (not_found_message folderName)))
       else
         bind_io (await (get_prop sharedFolder ''remoteItem'')) (\<lambda>remoteItem.
         bind_io (await (get_prop remoteItem ''parentReference'')) (\<lambda>parentReference.
         bind_io (await (get_prop parentReference ''driveId'')) (\<lambda>d.
         bind_io (await (get_prop remoteItem ''id'')) (\<lambda>i.
           await (Returns \<lparr>driveId = d, itemId = i\<rparr>))))))) t2 = (Returns ref, t')"
    unfolding bind_io_Returns_iff by blast
  from r have ax: "axios w (length (filter is_http t1)) (GetSharedWithMe tok) = Returns r"
    and t2: "t2 = t1 @ [Http (GetSharedWithMe tok)]"
    by (simp_all add: http_def)
  from rest2 obtain v where v: "get_prop (data r) ''value'' = Returns v"
    by (cases "get_prop (data r) ''value''") simp_all
  from rest2 v obtain found where f: "call_find v (folder_matches folderName) = Returns found"
    by (cases "call_find v (folder_matches folderName)") simp_all
  then obtain items where items: "v = JArr items"
    by (cases v) simp_all
  from rest2 v f have tf: "truthy found" and t': "t' = t2"
    by (auto split: if_splits completion.splits)
  from tok t1 t2 t' ax v items f tf show ?thesis
    by auto
qed

lemma upload_cases:
  "uploadFileToSharedFolder w d i p n t =
     (case getOneDriveAccessToken w t of
        (Returns tok, t1) \<Rightarrow>
          (case fs_readFile w p of
             Returns buf \<Rightarrow>
               (case axios w (length (filter is_http t1)) (PutContent d i n tok buf) of
                  Returns r \<Rightarrow> if status r = 201 \<or> status r = 200 then Returns (data r)
                               else Throws (Error ''Failed to upload file to shared folder.'')
                | Throws e \<Rightarrow> Throws e
                | Hangs \<Rightarrow> Hangs,
                t1 @ [Http (PutContent d i n tok buf)])
           | Throws e \<Rightarrow> (Throws e, t1)
           | Hangs \<Rightarrow> (Hangs, t1))
      | (Throws e, t1) \<Rightarrow> (Throws e, t1)
      | (Hangs, t1) \<Rightarrow> (Hangs, t1))"
  by (simp add: uploadFileToSharedFolder_def bind_io_def http_def split: completion.splits prod.splits)

subsection \<open>What each helper does on the answers of the world\<close>

lemma token_Returns:
  assumes "getOneDriveAccessToken w t = (Returns tok, t')"
  shows "t' = t @ [Http (PostToken (env_AZURE_CLIENT_ID w) (env_ONEDRIVE_REFRESH_TOKEN w))] \<and>
     (\<exists>r. axios w (length (filter is_http t))
            (PostToken (env_AZURE_CLIENT_ID w) (env_ONEDRIVE_REFRESH_TOKEN w)) = Returns r \<and>
          status r = 200 \<and> get_prop (data r) ''access_token'' = Returns tok)"
  using assms by (auto simp: token_cases split: completion.splits if_splits)

lemma token_ok:
  assumes "axios w (length (filter is_http t))
            (PostToken (env_AZURE_CLIENT_ID w) (env_ONEDRIVE_REFRESH_TOKEN w)) = Returns r"
    and "status r = 200" and "get_prop (data r) ''access_token'' = Returns tok"
  shows "getOneDriveAccessToken w t =
     (Returns tok, t @ [Http (PostToken (env_AZURE_CLIENT_ID w) (env_ONEDRIVE_REFRESH_TOKEN w))])"
  using assms by (simp add: token_cases)

lemma upload_Returns:
  assumes "uploadFileToSharedFolder w d i p n t = (Returns v, t')"
  shows "\<exists>tok buf r.
      getOneDriveAccessToken w t =
        (Returns tok, t @ [Http (PostToken (env_AZURE_CLIENT_ID w) (env_ONEDRIVE_REFRESH_TOKEN w))]) \<and>
      fs_readFile w p = Returns buf \<and>
      axios w (Suc (length (filter is_http t))) (PutContent d i n tok buf) = Returns r \<and>
      (status r = 201 \<or> status r = 200) \<and> v = data r \<and>
      t' = t @ [Http (PostToken (env_AZURE_CLIENT_ID w) (env_ONEDRIVE_REFRESH_TOKEN w)),
                Http (PutContent d i n tok buf)]"
proof -
  let ?P = "Http (PostToken (env_AZURE_CLIENT_ID w) (env_ONEDRIVE_REFRESH_TOKEN w))"
  obtain c t1 where g: "getOneDriveAccessToken w t = (c, t1)"
    by (cases "getOneDriveAccessToken w t")
  with assms obtain tok where c: "c = Returns tok"
    by (cases c) (simp_all add: upload_cases)
  from g c have t1: "t1 = t @ [?P]"
    using token_Returns by blast
  from assms g c obtain buf where buf: "fs_readFile w p = Returns buf"
    by (cases "fs_readFile w p") (simp_all add: upload_cases)
  from assms g c buf obtain r where r: "axios w (length (filter is_http t1)) (PutContent d i n tok buf) = Returns r"
    by (cases "axios w (length (filter is_http t1)) (PutContent d i n tok buf)") (simp_all add: upload_cases)
  from assms g c buf r have "(status r = 201 \<or> status r = 200) \<and> v = data r \<and> t' = t1 @ [Http (PutContent d i n tok buf)]"
    by (auto simp: upload_cases split: if_splits)
  with g c t1 buf r show ?thesis by auto
qed

lemma resolve_found:
  assumes "axios w (length (filter is_http t))
            (PostToken (env_AZURE_CLIENT_ID w) (env_ONEDRIVE_REFRESH_TOKEN w)) = Returns r1"
    and "status r1 = 200" and "get_prop (data r1) ''access_token'' = Returns tok"
    and "axios w (Suc (length (filter is_http t))) (GetSharedWithMe tok) = Returns r2"
    and "get_prop (data r2) ''value'' = Returns (JArr (pre @ folder # post))"
    and "\<forall>x\<in>set pre. is_entry x \<and> \<not> is_named_folder name x"
    and "is_named_folder name folder"
    and "get_prop folder ''remoteItem'' = Returns ri"
    and "get_prop ri ''parentReference'' = Returns pr"
    and "get_prop pr ''driveId'' = Returns d"
    and "get_prop ri ''id'' = Returns i"
  shows "resolveSharedFolder w (Some name) t =
     (Returns \<lparr>driveId = d, itemId = i\<rparr>,
      t @ [Http (PostToken (env_AZURE_CLIENT_ID w) (env_ONEDRIVE_REFRESH_TOKEN w)),
           Http (GetSharedWithMe tok)])"
proof -
  let ?P = "Http (PostToken (env_AZURE_CLIENT_ID w) (env_ONEDRIVE_REFRESH_TOKEN w))"
  have tok: "getOneDriveAccessToken w t = (Returns tok, t @ [?P])"
    using assms(1-3) by (rule token_ok)
  have ax: "axios w (length (filter is_http (t @ [?P]))) (GetSharedWithMe tok) = Returns r2"
    using assms(4) by simp
  have find: "array_find (folder_matches (Some name)) (pre @ folder # post) = Returns folder"
    using assms(6,7) by (rule array_find_first)
  have "truthy folder" using assms(7) by (rule named_folder_truthy)
  then show ?thesis
    using resolve_cases [OF tok ax assms(5) find] assms(8-11) by simp
qed

lemma resolve_not_found:
  assumes "axios w (length (filter is_http t))
            (PostToken (env_AZURE_CLIENT_ID w) (env_ONEDRIVE_REFRESH_TOKEN w)) = Returns r1"
    and "status r1 = 200" and "get_prop (data r1) ''access_token'' = Returns tok"
    and "axios w (Suc (length (filter is_http t))) (GetSharedWithMe tok) = Returns r2"
    and "get_prop (data r2) ''value'' = Returns (JArr items)"
    and "\<forall>x\<in>set items. is_entry x \<and> \<not> is_named_folder name x"
  shows "resolveSharedFolder w (Some name) t =
     (Throws (Error (not_found_message (Some name))),
      t @ [Http (PostToken (env_AZURE_CLIENT_ID w) (env_ONEDRIVE_REFRESH_TOKEN w)),
           Http (GetSharedWithMe tok)])"
proof -
  let ?P = "Http (PostToken (env_AZURE_CLIENT_ID w) (env_ONEDRIVE_REFRESH_TOKEN w))"
  have tok: "getOneDriveAccessToken w t = (Returns tok, t @ [?P])"
    using assms(1-3) by (rule token_ok)
  have ax: "axios w (length (filter is_http (t @ [?P]))) (GetSharedWithMe tok) = Returns r2"
    using assms(4) by simp
  have find: "array_find (folder_matches (Some name)) items = Returns JUndefined"
    using assms(6) by (rule array_find_none)
  show ?thesis
    using resolve_cases [OF tok ax assms(5) find] by simp
qed

lemma upload_ok:
  assumes "axios w (length (filter is_http t))
            (PostToken (env_AZURE_CLIENT_ID w) (env_ONEDRIVE_REFRESH_TOKEN w)) = Returns r3"
    and "status r3 = 200" and "get_prop (data r3) ''access_token'' = Returns tok"
    and "fs_readFile w p = Returns buf"
    and "axios w (Suc (length (filter is_http t))) (PutContent d i n tok buf) = Returns r4"
    and "status r4 = 201 \<or> status r4 = 200"
  shows "uploadFileToSharedFolder w d i p n t =
     (Returns (data r4),
      t @ [Http (PostToken (env_AZURE_CLIENT_ID w) (env_ONEDRIVE_REFRESH_TOKEN w)),
           Http (PutContent d i n tok buf)])"
proof -
  let ?P = "Http (PostToken (env_AZURE_CLIENT_ID w) (env_ONEDRIVE_REFRESH_TOKEN w))"
  have tok: "getOneDriveAccessToken w t = (Returns tok, t @ [?P])"
    using assms(1-3) by (rule token_ok)
  show ?thesis
    using assms(4-6) by (auto simp: upload_cases tok)
qed

text \<open>The handler up to the check of the downloaded file.\<close>

lemma handler_try_downloaded:
  assumes "Records ev = r # rs" and "decodeURIComponent (object_key r) = Inr k"
    and "tmp_path (''download-'' @ show_nat (date_now w) @ extname k) = p"
    and "settled (download_run (s3_streams w (bucket_name r) k p)) = Fulfilled"
    and "fs_stat w p = Returns n" and "0 < n"
    and "env_ONEDRIVE_SHARED_FOLDER w = folderName"
    and "resolveSharedFolder w folderName [S3Download (bucket_name r) k p] = (Returns ref, t2)"
    and "uploadFileToSharedFolder w (driveId ref) (itemId ref) p k t2 = (Returns v, t3)"
  shows "handler_try w ev [] =
     (if \<not> truthy v then Throws (Error ''Failed to upload file to shared folder on OneDrive.'')
      else Returns \<lparr>statusCode = 200,
                    body = json_message (''File uploaded successfully to shared folder '' @
                             [CHR 0x22] @ env_text folderName @ [CHR 0x22])\<rparr>,
      t3)"
  using assms by (simp add: handler_try_def Let_def bind_io_def download_apply)

lemma handler_pipeline:
  assumes "Records ev = r # rs" and "decodeURIComponent (object_key r) = Inr k"
    and "tmp_path (''download-'' @ show_nat (date_now w) @ extname k) = p"
    and "settled (download_run (s3_streams w (bucket_name r) k p)) = Fulfilled"
    and "fs_stat w p = Returns n" and "0 < n"
    and "env_ONEDRIVE_SHARED_FOLDER w = Some name"
    and "axios w 0 (PostToken (env_AZURE_CLIENT_ID w) (env_ONEDRIVE_REFRESH_TOKEN w)) = Returns r1"
    and "status r1 = 200" and "get_prop (data r1) ''access_token'' = Returns tok1"
    and "axios w 1 (GetSharedWithMe tok1) = Returns r2"
    and "get_prop (data r2) ''value'' = Returns (JArr (pre @ folder # post))"
    and "\<forall>x\<in>set pre. is_entry x \<and> \<not> is_named_folder name x"
    and "is_named_folder name folder"
    and "get_prop folder ''remoteItem'' = Returns ri"
    and "get_prop ri ''parentReference'' = Returns pr"
    and "get_prop pr ''driveId'' = Returns d"
    and "get_prop ri ''id'' = Returns i"
    and "axios w 2 (PostToken (env_AZURE_CLIENT_ID w) (env_ONEDRIVE_REFRESH_TOKEN w)) = Returns r3"
    and "status r3 = 200" and "get_prop (data r3) ''access_token'' = Returns tok2"
    and "fs_readFile w p = Returns buf"
    and "axios w 3 (PutContent d i k tok2 buf) = Returns r4"
    and "status r4 = 201 \<or> status r4 = 200"
  shows "handler_try w ev [] =
     (if \<not> truthy (data r4)
      then Throws (Error ''Failed to upload file to shared folder on OneDrive.'')
      else Returns \<lparr>statusCode = 200,
                    body = json_message (''File uploaded successfully to shared folder '' @
                             [CHR 0x22] @ name @ [CHR 0x22])\<rparr>,
      [S3Download (bucket_name r) k p,
       Http (PostToken (env_AZURE_CLIENT_ID w) (env_ONEDRIVE_REFRESH_TOKEN w)),
       Http (GetSharedWithMe tok1),
       Http (PostToken (env_AZURE_CLIENT_ID w) (env_ONEDRIVE_REFRESH_TOKEN w)),
       Http (PutContent d i k tok2 buf)])"
proof -
  let ?P = "Http (PostToken (env_AZURE_CLIENT_ID w) (env_ONEDRIVE_REFRESH_TOKEN w))"
  let ?t0 = "[S3Download (bucket_name r) k p]"
  let ?t2 = "?t0 @ [?P, Http (GetSharedWithMe tok1)]"
  have res: "resolveSharedFolder w (Some name) ?t0 = (Returns \<lparr>driveId = d, itemId = i\<rparr>, ?t2)"
    by (rule resolve_found [where ?r1.0 = r1 and ?r2.0 = r2 and pre = pre and post = post and folder = folder and ri = ri and pr = pr])
       (use assms in simp_all)
  have up: "uploadFileToSharedFolder w (driveId \<lparr>driveId = d, itemId = i\<rparr>) (itemId \<lparr>driveId = d, itemId = i\<rparr>) p k ?t2 =
      (Returns (data r4), ?t2 @ [?P, Http (PutContent d i k tok2 buf)])"
    unfolding folder_ref.simps
    by (rule upload_ok [where ?r3.0 = r3 and ?r4.0 = r4]) (use assms in \<open>simp_all add: numeral_2_eq_2 numeral_3_eq_3\<close>)
  show ?thesis
    using handler_try_downloaded [OF assms(1-7) res up] by (simp add: env_text_def)
qed

subsection \<open>The handler and the example world\<close>

lemma handler_of_try:
  "handler w ev =
     (case handler_try w ev [] of
        (Throws err, t) \<Rightarrow>
          (Returns \<lparr>statusCode = 500,
                    body = json_message_error ''Failed to process shared folder'' (message err)\<rparr>, t)
      | (Returns r, t) \<Rightarrow> (Returns r, t)
      | (Hangs, t) \<Rightarrow> (Hangs, t))"
  by (simp add: handler_def)

lemma decode_example: "decodeURIComponent ''example.txt'' = Inr ''example.txt''"
  by (simp add: decodeURIComponent_def)

lemma extname_example: "extname ''example.txt'' = ''.txt''"
  by (simp add: extname_def)

lemma example_downloaded:
  "settled (download_run (s3_streams example_world b k p)) = Fulfilled"
  by (simp add: example_world_def download_run_def download_start_def)

lemma reports_entry_props:
  "is_named_folder ''Reports'' reports_entry"
  "get_prop reports_entry ''remoteItem'' =
     Returns (JObj [(''id'', JStr ''ITEM1''), (''parentReference'', JObj [(''driveId'', JStr ''DRIVE1'')])])"
  "is_entry notes_entry" "\<not> is_named_folder name notes_entry"
  "is_entry reports_entry" "name \<noteq> ''Reports'' \<Longrightarrow> \<not> is_named_folder name reports_entry"
  by (simp_all add: reports_entry_def notes_entry_def)

lemma example_world_fields:
  "env_AZURE_CLIENT_ID example_world = Some ''client''"
  "env_ONEDRIVE_REFRESH_TOKEN example_world = Some ''refresh''"
  "env_ONEDRIVE_SHARED_FOLDER example_world = Some ''Reports''"
  "date_now example_world = 1730000000000"
  "axios example_world = example_axios"
  "fs_stat example_world = (\<lambda>p. Returns 5)"
  "fs_readFile example_world = (\<lambda>p. Returns [1, 2, 3, 4, 5])"
  "s3_streams example_world = (\<lambda>b k p. [ReadEnd, WriteFinish, StatSettled (Inr 5)])"
  by (simp_all add: example_world_def)

lemma example_path:
  "tmp_path (''download-'' @ show_nat (date_now example_world) @ extname ''example.txt'') =
   ''/tmp/download-1730000000000.txt''"
  by (simp add: example_world_fields extname_def tmp_path_def show_nat.simps digit_char_def char_of_def bit_0)

lemma example_fulfilled: "settled (download_run [ReadEnd, WriteFinish, StatSettled (Inr 5)]) = Fulfilled"
  by (simp add: download_run_def download_start_def)

lemma handler_try_resolve_throws:
  assumes "Records ev = r # rs" and "decodeURIComponent (object_key r) = Inr k"
    and "tmp_path (''download-'' @ show_nat (date_now w) @ extname k) = p"
    and "settled (download_run (s3_streams w (bucket_name r) k p)) = Fulfilled"
    and "fs_stat w p = Returns n" and "0 < n"
    and "env_ONEDRIVE_SHARED_FOLDER w = folderName"
    and "resolveSharedFolder w folderName [S3Download (bucket_name r) k p] = (Throws e, t2)"
  shows "handler_try w ev [] = (Throws e, t2)"
  using assms by (simp add: handler_try_def Let_def bind_io_def download_apply)

lemma resolve_token_throws:
  assumes "fst (getOneDriveAccessToken w t) = Throws e"
  shows "resolveSharedFolder w folderName t =
     (Throws e, t @ [Http (PostToken (env_AZURE_CLIENT_ID w) (env_ONEDRIVE_REFRESH_TOKEN w))])"
proof -
  have "getOneDriveAccessToken w t =
      (Throws e, t @ [Http (PostToken (env_AZURE_CLIENT_ID w) (env_ONEDRIVE_REFRESH_TOKEN w))])"
    using assms by (simp add: token_cases)
  then show ?thesis
    by (simp add: resolveSharedFolder_def bind_io_def)
qed

lemma handler_no_upload:
  assumes "\<And>b k p. resolveSharedFolder w (env_ONEDRIVE_SHARED_FOLDER w) [S3Download b k p] =
      (Throws e, [S3Download b k p, Http (PostToken c r), Http (GetSharedWithMe tok)])"
  shows "filter is_upload_request (snd (handler w ev)) = []"
  by (auto simp: handler_of_try handler_try_def Let_def bind_io_def download_apply assms
      split: list.splits sum.splits promise.splits completion.splits)

subsection \<open>The shape of every run of the handler\<close>

lemma resolve_trace:
  "snd (resolveSharedFolder w f t) =
     t @ [Http (PostToken (env_AZURE_CLIENT_ID w) (env_ONEDRIVE_REFRESH_TOKEN w))] \<or>
   (\<exists>tok. snd (resolveSharedFolder w f t) =
     t @ [Http (PostToken (env_AZURE_CLIENT_ID w) (env_ONEDRIVE_REFRESH_TOKEN w)),
          Http (GetSharedWithMe tok)])"
  by (auto simp: resolveSharedFolder_def bind_io_def http_def token_cases split: completion.splits)

lemma upload_trace:
  "snd (uploadFileToSharedFolder w d i p n t) =
     t @ [Http (PostToken (env_AZURE_CLIENT_ID w) (env_ONEDRIVE_REFRESH_TOKEN w))] \<or>
   (\<exists>tok buf. snd (uploadFileToSharedFolder w d i p n t) =
     t @ [Http (PostToken (env_AZURE_CLIENT_ID w) (env_ONEDRIVE_REFRESH_TOKEN w)),
          Http (PutContent d i n tok buf)])"
  by (auto simp: upload_cases token_cases split: completion.splits)

lemma handler_try_cases:
  assumes "Records ev = r # rs" and "decodeURIComponent (object_key r) = Inr k"
    and "tmp_path (''download-'' @ show_nat (date_now w) @ extname k) = p"
  shows "handler_try w ev [] =
     (case settled (download_run (s3_streams w (bucket_name r) k p)) of
        Pending \<Rightarrow> (Hangs, [S3Download (bucket_name r) k p])
      | Rejected e \<Rightarrow> (Throws e, [S3Download (bucket_name r) k p])
      | Fulfilled \<Rightarrow>
          (case fs_stat w p of
             Hangs \<Rightarrow> (Hangs, [S3Download (bucket_name r) k p])
           | Throws e \<Rightarrow> (Throws e, [S3Download (bucket_name r) k p])
           | Returns n \<Rightarrow>
               if n = 0
               then (Throws (Error ''Downloaded file is empty.''), [S3Download (bucket_name r) k p])
               else
                 (case resolveSharedFolder w (env_ONEDRIVE_SHARED_FOLDER w)
                         [S3Download (bucket_name r) k p] of
                    (Hangs, t2) \<Rightarrow> (Hangs, t2)
                  | (Throws e, t2) \<Rightarrow> (Throws e, t2)
                  | (Returns ref, t2) \<Rightarrow>
                      (case uploadFileToSharedFolder w (driveId ref) (itemId ref) p k t2 of
                         (Hangs, t3) \<Rightarrow> (Hangs, t3)
                       | (Throws e, t3) \<Rightarrow> (Throws e, t3)
                       | (Returns v, t3) \<Rightarrow>
                           (if \<not> truthy v
                            then Throws (Error ''Failed to upload file to shared folder on OneDrive.'')
                            else Returns
                              \<lparr>statusCode = 200,
                               body = json_message
                                 (''File uploaded successfully to shared folder '' @ [CHR 0x22] @
                                  env_text (env_ONEDRIVE_SHARED_FOLDER w) @ [CHR 0x22])\<rparr>,
                            t3)))))"
  using assms
  by (simp add: handler_try_def Let_def bind_io_def download_apply
      split: promise.splits completion.splits prod.splits)

lemma handler_try_Returns:
  assumes "handler_try w ev [] = (Returns out, t)"
  shows "\<exists>r rs k p d i toka tokb buf ra rc.
      Records ev = r # rs \<and> decodeURIComponent (object_key r) = Inr k \<and>
      t = [S3Download (bucket_name r) k p,
           Http (PostToken (env_AZURE_CLIENT_ID w) (env_ONEDRIVE_REFRESH_TOKEN w)),
           Http (GetSharedWithMe toka),
           Http (PostToken (env_AZURE_CLIENT_ID w) (env_ONEDRIVE_REFRESH_TOKEN w)),
           Http (PutContent d i k tokb buf)] \<and>
      axios w 0 (PostToken (env_AZURE_CLIENT_ID w) (env_ONEDRIVE_REFRESH_TOKEN w)) = Returns ra \<and>
      status ra = 200 \<and> get_prop (data ra) ''access_token'' = Returns toka \<and>
      axios w 2 (PostToken (env_AZURE_CLIENT_ID w) (env_ONEDRIVE_REFRESH_TOKEN w)) = Returns rc \<and>
      status rc = 200 \<and> get_prop (data rc) ''access_token'' = Returns tokb \<and>
      statusCode out = 200"
proof -
  let ?P = "Http (PostToken (env_AZURE_CLIENT_ID w) (env_ONEDRIVE_REFRESH_TOKEN w))"
  from assms obtain r rs where recs: "Records ev = r # rs"
    by (cases "Records ev") (simp_all add: handler_try_def)
  from assms recs obtain k where dec: "decodeURIComponent (object_key r) = Inr k"
    by (cases "decodeURIComponent (object_key r)") (simp_all add: handler_try_def)
  define p where "p = tmp_path (''download-'' @ show_nat (date_now w) @ extname k)"
  then have path: "tmp_path (''download-'' @ show_nat (date_now w) @ extname k) = p"
    by simp
  let ?t0 = "[S3Download (bucket_name r) k p]"
  note cases = handler_try_cases [OF recs dec path]
  from assms cases have dl: "settled (download_run (s3_streams w (bucket_name r) k p)) = Fulfilled"
    by (cases "settled (download_run (s3_streams w (bucket_name r) k p))") simp_all
  from assms cases dl obtain n where st: "fs_stat w p = Returns n"
    by (cases "fs_stat w p") simp_all
  from assms cases dl st have n: "n \<noteq> 0"
    by (auto split: if_splits)
  obtain c t2 where res0: "resolveSharedFolder w (env_ONEDRIVE_SHARED_FOLDER w) ?t0 = (c, t2)"
    by (cases "resolveSharedFolder w (env_ONEDRIVE_SHARED_FOLDER w) ?t0")
  from assms cases dl st n res0 obtain ref where c: "c = Returns ref"
    by (cases c) simp_all
  obtain c' t3 where up0: "uploadFileToSharedFolder w (driveId ref) (itemId ref) p k t2 = (c', t3)"
    by (cases "uploadFileToSharedFolder w (driveId ref) (itemId ref) p k t2")
  from assms cases dl st n res0 c up0 obtain v where c': "c' = Returns v"
    by (cases c') simp_all
  from assms cases dl st n res0 c up0 c' have fin: "t = t3" "statusCode out = 200"
    by (auto split: if_splits)
  from resolve_Returns [OF res0 [unfolded c]] obtain toka where
    tka: "getOneDriveAccessToken w ?t0 = (Returns toka, ?t0 @ [?P])"
    and t2: "t2 = ?t0 @ [?P, Http (GetSharedWithMe toka)]"
    by blast
  from token_Returns [OF tka] obtain ra where
    ra: "axios w 0 (PostToken (env_AZURE_CLIENT_ID w) (env_ONEDRIVE_REFRESH_TOKEN w)) = Returns ra"
      "status ra = 200" "get_prop (data ra) ''access_token'' = Returns toka"
    by auto
  from upload_Returns [OF up0 [unfolded c']] obtain tokb buf where
    tkb: "getOneDriveAccessToken w t2 = (Returns tokb, t2 @ [?P])"
    and t3: "t3 = t2 @ [?P, Http (PutContent (driveId ref) (itemId ref) k tokb buf)]"
    by blast
  from token_Returns [OF tkb] t2 obtain rc where
    rc: "axios w 2 (PostToken (env_AZURE_CLIENT_ID w) (env_ONEDRIVE_REFRESH_TOKEN w)) = Returns rc"
      "status rc = 200" "get_prop (data rc) ''access_token'' = Returns tokb"
    by (auto simp: numeral_2_eq_2)
  from recs dec fin t2 t3 ra rc show ?thesis
    by auto
qed

lemma handler_trace: "snd (handler w ev) = snd (handler_try w ev [])"
  by (simp add: handler_of_try split: prod.splits completion.splits)

lemma handler_try_trace:
  assumes "Records ev = r # rs" and "decodeURIComponent (object_key r) = Inr k"
    and "tmp_path (''download-'' @ show_nat (date_now w) @ extname k) = p"
  shows "\<exists>a. snd (handler_try w ev []) = S3Download (bucket_name r) k p # a \<and>
     list_all (\<lambda>e. s3_key e = None \<and> (upload_name e = None \<or> upload_name e = Some k)) a"
proof -
  let ?P = "Http (PostToken (env_AZURE_CLIENT_ID w) (env_ONEDRIVE_REFRESH_TOKEN w))"
  let ?t0 = "[S3Download (bucket_name r) k p]"
  let ?Q = "\<lambda>e. s3_key e = None \<and> (upload_name e = None \<or> upload_name e = Some k)"
  note cases = handler_try_cases [OF assms]
  obtain c t2 where res: "resolveSharedFolder w (env_ONEDRIVE_SHARED_FOLDER w) ?t0 = (c, t2)"
    by (cases "resolveSharedFolder w (env_ONEDRIVE_SHARED_FOLDER w) ?t0")
  from resolve_trace [of w "env_ONEDRIVE_SHARED_FOLDER w" ?t0] res
  obtain a where t2: "t2 = ?t0 @ a" "list_all ?Q a"
    by auto
  have up: "\<exists>b. snd (uploadFileToSharedFolder w d i p k t2) = ?t0 @ b \<and> list_all ?Q b" for d i
    using upload_trace [of w d i p k t2] t2 by auto
  show ?thesis
  proof (cases c)
    case (Returns ref)
    obtain c' t3 where u: "uploadFileToSharedFolder w (driveId ref) (itemId ref) p k t2 = (c', t3)"
      by (cases "uploadFileToSharedFolder w (driveId ref) (itemId ref) p k t2")
    with up [of "driveId ref" "itemId ref"] obtain b where "t3 = ?t0 @ b" "list_all ?Q b"
      by auto
    with cases res Returns u show ?thesis
      by (auto split: promise.splits completion.splits)
  next
    case (Throws e)
    with cases res t2 show ?thesis
      by (auto split: promise.splits completion.splits)
  next
    case Hangs
    with cases res t2 show ?thesis
      by (auto split: promise.splits completion.splits)
  qed
qed

lemma quiet_events:
  assumes "list_all (\<lambda>e. s3_key e = None \<and> (upload_name e = None \<or> upload_name e = Some k)) a"
  shows "List.map_filter s3_key a = [] \<and> set (List.map_filter upload_name a) \<subseteq> {k}"
  using assms by (induction a) (auto simp: List.map_filter_simps)

lemma example_world_run:
  assumes "decodeURIComponent key = Inr k"
    and "tmp_path (''download-'' @ show_nat (date_now example_world) @ extname k) = p"
  shows "handler example_world \<lparr>Records = [\<lparr>bucket_name = b, object_key = key\<rparr>]\<rparr> =
     (Returns \<lparr>statusCode = 200,
               body = json_message (''File uploaded successfully to shared folder '' @
                        [CHR 0x22] @ ''Reports'' @ [CHR 0x22])\<rparr>,
      [S3Download b k p,
       Http (PostToken (Some ''client'') (Some ''refresh'')),
       Http (GetSharedWithMe (JStr ''tokenA'')),
       Http (PostToken (Some ''client'') (Some ''refresh'')),
       Http (PutContent (JStr ''DRIVE1'') (JStr ''ITEM1'') k (JStr ''tokenB'') [1, 2, 3, 4, 5])])"
proof -
  let ?r = "\<lparr>bucket_name = b, object_key = key\<rparr>"
  let ?ev = "\<lparr>Records = [?r]\<rparr>"
  have "handler_try example_world ?ev [] =
     (if \<not> truthy (data created_response)
      then Throws (Error ''Failed to upload file to shared folder on OneDrive.'')
      else Returns \<lparr>statusCode = 200,
                    body = json_message (''File uploaded successfully to shared folder '' @
                             [CHR 0x22] @ ''Reports'' @ [CHR 0x22])\<rparr>,
      [S3Download (bucket_name ?r) k p,
       Http (PostToken (env_AZURE_CLIENT_ID example_world) (env_ONEDRIVE_REFRESH_TOKEN example_world)),
       Http (GetSharedWithMe (JStr ''tokenA'')),
       Http (PostToken (env_AZURE_CLIENT_ID example_world) (env_ONEDRIVE_REFRESH_TOKEN example_world)),
       Http (PutContent (JStr ''DRIVE1'') (JStr ''ITEM1'') k (JStr ''tokenB'') [1, 2, 3, 4, 5])])"
  proof (rule handler_pipeline [where rs = "[]" and n = 5 and name = "''Reports''"
        and ?r1.0 = "token_response ''tokenA''" and ?r2.0 = listing_response
        and pre = "[notes_entry]" and folder = reports_entry and post = "[]"
        and ri = "JObj [(''id'', JStr ''ITEM1''), (''parentReference'', JObj [(''driveId'', JStr ''DRIVE1'')])]"
        and pr = "JObj [(''driveId'', JStr ''DRIVE1'')]"
        and ?r3.0 = "token_response ''tokenB''"])
    show "decodeURIComponent (object_key ?r) = Inr k"
      using assms(1) by simp
    show "tmp_path (''download-'' @ show_nat (date_now example_world) @ extname k) = p"
      by (rule assms(2))
    show "settled (download_run (s3_streams example_world (bucket_name ?r) k p)) = Fulfilled"
      by (rule example_downloaded)
  qed (simp_all add: example_world_fields token_response_def listing_response_def
        created_response_def reports_entry_props)
  then show ?thesis
    by (simp add: handler_of_try example_world_fields created_response_def)
qed

lemma decode_encoded: "decodeURIComponent ''a%20b.txt'' = Inr ''a b.txt''"
  by (simp add: decodeURIComponent_def hex_val_def lead_ones_def char_of_def bit_0)

lemma encoded_path:
  "tmp_path (''download-'' @ show_nat (date_now example_world) @ extname ''a b.txt'') =
   ''/tmp/download-1730000000000.txt''"
  by (simp add: example_world_fields extname_def tmp_path_def show_nat.simps digit_char_def char_of_def bit_0)

subsection \<open>Settlements, listings with no match, and further example worlds\<close>








lemma folder_matches_total:
  "(\<exists>v. folder_matches (Some name) x = Returns v \<and> (truthy v \<longrightarrow> is_named_folder name x)) \<or>
   (\<exists>e. folder_matches (Some name) x = Throws e)"
  by (cases x) (auto simp: folder_matches_def strict_eq_env_def split: option.splits)

lemma array_find_no_match:
  assumes "\<forall>x\<in>set items. \<not> is_named_folder name x"
  shows "array_find (folder_matches (Some name)) items = Returns JUndefined \<or>
     (\<exists>e. array_find (folder_matches (Some name)) items = Throws e)"
  using assms
proof (induction items)
  case Nil
  then show ?case by simp
next
  case (Cons x items)
  from folder_matches_total [of name x] show ?case
  proof
    assume "\<exists>v. folder_matches (Some name) x = Returns v \<and> (truthy v \<longrightarrow> is_named_folder name x)"
    then obtain v where "folder_matches (Some name) x = Returns v" "\<not> truthy v"
      using Cons.prems by auto
    with Cons show ?thesis by simp
  next
    assume "\<exists>e. folder_matches (Some name) x = Throws e"
    then show ?thesis by auto
  qed
qed

lemma resolve_find_throws:
  assumes "getOneDriveAccessToken w t = (Returns tok, t1)"
    and "axios w (length (filter is_http t1)) (GetSharedWithMe tok) = Returns r"
    and "get_prop (data r) ''value'' = Returns (JArr items)"
    and "array_find (folder_matches folderName) items = Throws e"
  shows "resolveSharedFolder w folderName t = (Throws e, t1 @ [Http (GetSharedWithMe tok)])"
  using assms
  by (simp add: resolveSharedFolder_def bind_io_def http_def)

lemma resolve_no_match:
  assumes "axios w (length (filter is_http t))
            (PostToken (env_AZURE_CLIENT_ID w) (env_ONEDRIVE_REFRESH_TOKEN w)) = Returns r1"
    and "status r1 = 200" and "get_prop (data r1) ''access_token'' = Returns tok"
    and "axios w (Suc (length (filter is_http t))) (GetSharedWithMe tok) = Returns r2"
    and "get_prop (data r2) ''value'' = Returns (JArr items)"
    and "\<forall>x\<in>set items. \<not> is_named_folder name x"
  shows "\<exists>e. resolveSharedFolder w (Some name) t =
     (Throws e,
      t @ [Http (PostToken (env_AZURE_CLIENT_ID w) (env_ONEDRIVE_REFRESH_TOKEN w)),
           Http (GetSharedWithMe tok)])"
proof -
  let ?P = "Http (PostToken (env_AZURE_CLIENT_ID w) (env_ONEDRIVE_REFRESH_TOKEN w))"
  have tok: "getOneDriveAccessToken w t = (Returns tok, t @ [?P])"
    using assms(1-3) by (rule token_ok)
  have ax: "axios w (length (filter is_http (t @ [?P]))) (GetSharedWithMe tok) = Returns r2"
    using assms(4) by simp
  from array_find_no_match [OF assms(6)] show ?thesis
  proof
    assume "array_find (folder_matches (Some name)) items = Returns JUndefined"
    from resolve_cases [OF tok ax assms(5) this] show ?thesis by simp
  next
    assume "\<exists>e. array_find (folder_matches (Some name)) items = Throws e"
    then obtain e where "array_find (folder_matches (Some name)) items = Throws e" ..
    from resolve_find_throws [OF tok ax assms(5) this] show ?thesis by simp
  qed
qed

lemma listing_world_fields:
  "env_AZURE_CLIENT_ID (listing_world items) = Some ''client''"
  "env_ONEDRIVE_REFRESH_TOKEN (listing_world items) = Some ''refresh''"
  "env_ONEDRIVE_SHARED_FOLDER (listing_world items) = Some ''Reports''"
  "axios (listing_world items) = listing_axios items"
  by (simp_all add: listing_world_def example_world_fields)

lemma archive_world_fields:
  "env_AZURE_CLIENT_ID archive_world = Some ''client''"
  "env_ONEDRIVE_REFRESH_TOKEN archive_world = Some ''refresh''"
  "env_ONEDRIVE_SHARED_FOLDER archive_world = Some ''Archive''"
  "axios archive_world = example_axios"
  by (simp_all add: archive_world_def example_world_fields)

lemma listing_world_token:
  "getOneDriveAccessToken (listing_world items) [] =
     (Returns (JStr ''tokenA''), [Http (PostToken (Some ''client'') (Some ''refresh''))])"
  by (simp add: token_cases listing_world_fields token_response_def)

section \<open>The claims\<close>

text \<open>
  C1. For a notification with bucket \<open>my-s3-bucket\<close> and key \<open>example.txt\<close>, when the
  configured shared folder \<open>Reports\<close> is in the shared-items listing and every step succeeds
  (the download is completed and not empty, both token requests are answered with status 200,
  the first entry of the listing that is the folder \<open>Reports\<close> carries its remote item, the
  file is read, and the upload is answered with status 200 or 201 and a truthy body), the
  handler downloads, then resolves, then uploads, and returns status code 200 with the body
  \<open>{"message":"File uploaded successfully to shared folder \"Reports\""}\<close>.
\<close>

theorem handler_success_example:
  assumes "Records ev = \<lparr>bucket_name = ''my-s3-bucket'', object_key = ''example.txt''\<rparr> # rs"
    and "env_ONEDRIVE_SHARED_FOLDER w = Some ''Reports''"
    and "p = tmp_path (''download-'' @ show_nat (date_now w) @ ''.txt'')"
    and "settled (download_run (s3_streams w ''my-s3-bucket'' ''example.txt'' p)) = Fulfilled"
    and "fs_stat w p = Returns n" and "0 < n"
    and "axios w 0 (PostToken (env_AZURE_CLIENT_ID w) (env_ONEDRIVE_REFRESH_TOKEN w)) = Returns ra"
    and "status ra = 200" and "get_prop (data ra) ''access_token'' = Returns toka"
    and "axios w 1 (GetSharedWithMe toka) = Returns rb"
    and "get_prop (data rb) ''value'' = Returns (JArr (pre @ folder # post))"
    and "\<forall>x\<in>set pre. is_entry x \<and> \<not> is_named_folder ''Reports'' x"
    and "is_named_folder ''Reports'' folder"
    and "get_prop folder ''remoteItem'' = Returns ri"
    and "get_prop ri ''parentReference'' = Returns pr"
    and "get_prop pr ''driveId'' = Returns d"
    and "get_prop ri ''id'' = Returns i"
    and "axios w 2 (PostToken (env_AZURE_CLIENT_ID w) (env_ONEDRIVE_REFRESH_TOKEN w)) = Returns rc"
    and "status rc = 200" and "get_prop (data rc) ''access_token'' = Returns tokb"
    and "fs_readFile w p = Returns buf"
    and "axios w 3 (PutContent d i ''example.txt'' tokb buf) = Returns rd"
    and "status rd = 201 \<or> status rd = 200" and "truthy (data rd)"
  shows "handler w ev =
     (Returns \<lparr>statusCode = 200,
               body = ''{'' @ [CHR 0x22] @ ''message'' @ [CHR 0x22] @ '':'' @ [CHR 0x22] @
                      ''File uploaded successfully to shared folder '' @ [CHR 0x5C, CHR 0x22] @
                      ''Reports'' @ [CHR 0x5C, CHR 0x22] @ [CHR 0x22] @ ''}''\<rparr>,
      [S3Download ''my-s3-bucket'' ''example.txt'' p,
       Http (PostToken (env_AZURE_CLIENT_ID w) (env_ONEDRIVE_REFRESH_TOKEN w)),
       Http (GetSharedWithMe toka),
       Http (PostToken (env_AZURE_CLIENT_ID w) (env_ONEDRIVE_REFRESH_TOKEN w)),
       Http (PutContent d i ''example.txt'' tokb buf)])"
proof -
  let ?r = "\<lparr>bucket_name = ''my-s3-bucket'', object_key = ''example.txt''\<rparr>"
  have dec: "decodeURIComponent (object_key ?r) = Inr ''example.txt''"
    by (simp add: decode_example)
  have path: "tmp_path (''download-'' @ show_nat (date_now w) @ extname ''example.txt'') = p"
    by (simp add: assms(3) extname_example)
  have dl: "settled (download_run (s3_streams w (bucket_name ?r) ''example.txt'' p)) = Fulfilled"
    using assms(4) by simp
  have "handler_try w ev [] =
     (if \<not> truthy (data rd)
      then Throws (Error ''Failed to upload file to shared folder on OneDrive.'')
      else Returns \<lparr>statusCode = 200,
                    body = json_message (''File uploaded successfully to shared folder '' @
                             [CHR 0x22] @ ''Reports'' @ [CHR 0x22])\<rparr>,
      [S3Download (bucket_name ?r) ''example.txt'' p,
       Http (PostToken (env_AZURE_CLIENT_ID w) (env_ONEDRIVE_REFRESH_TOKEN w)),
       Http (GetSharedWithMe toka),
       Http (PostToken (env_AZURE_CLIENT_ID w) (env_ONEDRIVE_REFRESH_TOKEN w)),
       Http (PutContent d i ''example.txt'' tokb buf)])"
    by (rule handler_pipeline [OF assms(1) dec path dl assms(5,6,2) assms(7-23)])
  then show ?thesis
    using assms(24) by (simp add: handler_of_try json_message_def json_quote_def json_escape_char_def)
qed

theorem handler_success_example_witness:
  "handler example_world example_event =
     (Returns \<lparr>statusCode = 200,
               body = ''{'' @ [CHR 0x22] @ ''message'' @ [CHR 0x22] @ '':'' @ [CHR 0x22] @
                      ''File uploaded successfully to shared folder '' @ [CHR 0x5C, CHR 0x22] @
                      ''Reports'' @ [CHR 0x5C, CHR 0x22] @ [CHR 0x22] @ ''}''\<rparr>,
      [S3Download ''my-s3-bucket'' ''example.txt'' ''/tmp/download-1730000000000.txt'',
       Http (PostToken (Some ''client'') (Some ''refresh'')),
       Http (GetSharedWithMe (JStr ''tokenA'')),
       Http (PostToken (Some ''client'') (Some ''refresh'')),
       Http (PutContent (JStr ''DRIVE1'') (JStr ''ITEM1'') ''example.txt'' (JStr ''tokenB'')
               [1, 2, 3, 4, 5])])"
proof -
  have w: "env_AZURE_CLIENT_ID example_world = Some ''client''"
    "env_ONEDRIVE_REFRESH_TOKEN example_world = Some ''refresh''"
    "env_ONEDRIVE_SHARED_FOLDER example_world = Some ''Reports''"
    "date_now example_world = 1730000000000"
    "axios example_world = example_axios"
    "fs_stat example_world = (\<lambda>p. Returns 5)"
    "fs_readFile example_world = (\<lambda>p. Returns [1, 2, 3, 4, 5])"
    by (simp_all add: example_world_def)
  have "handler example_world example_event =
     (Returns \<lparr>statusCode = 200,
               body = ''{'' @ [CHR 0x22] @ ''message'' @ [CHR 0x22] @ '':'' @ [CHR 0x22] @
                      ''File uploaded successfully to shared folder '' @ [CHR 0x5C, CHR 0x22] @
                      ''Reports'' @ [CHR 0x5C, CHR 0x22] @ [CHR 0x22] @ ''}''\<rparr>,
      [S3Download ''my-s3-bucket'' ''example.txt'' ''/tmp/download-1730000000000.txt'',
       Http (PostToken (env_AZURE_CLIENT_ID example_world) (env_ONEDRIVE_REFRESH_TOKEN example_world)),
       Http (GetSharedWithMe (JStr ''tokenA'')),
       Http (PostToken (env_AZURE_CLIENT_ID example_world) (env_ONEDRIVE_REFRESH_TOKEN example_world)),
       Http (PutContent (JStr ''DRIVE1'') (JStr ''ITEM1'') ''example.txt'' (JStr ''tokenB'')
               [1, 2, 3, 4, 5])])"
  proof (rule handler_success_example [where rs = "[]" and n = 5
        and ra = "token_response ''tokenA''" and rb = listing_response
        and pre = "[notes_entry]" and folder = reports_entry and post = "[]"
        and ri = "JObj [(''id'', JStr ''ITEM1''), (''parentReference'', JObj [(''driveId'', JStr ''DRIVE1'')])]"
        and pr = "JObj [(''driveId'', JStr ''DRIVE1'')]"
        and rc = "token_response ''tokenB''" and rd = created_response])
    show "Records example_event = \<lparr>bucket_name = ''my-s3-bucket'', object_key = ''example.txt''\<rparr> # []"
      by (simp add: example_event_def)
    show "''/tmp/download-1730000000000.txt'' = tmp_path (''download-'' @ show_nat (date_now example_world) @ ''.txt'')"
      by (simp add: w tmp_path_def show_nat.simps digit_char_def char_of_def bit_0)
    show "settled (download_run (s3_streams example_world ''my-s3-bucket'' ''example.txt'' ''/tmp/download-1730000000000.txt'')) = Fulfilled"
      by (rule example_downloaded)
  qed (simp_all add: w token_response_def listing_response_def created_response_def reports_entry_props)
  then show ?thesis by (simp add: w)
qed

text \<open>
  C2. When the token endpoint answers 401, the handler returns status code 500 and the error
  field carries the message of the authentication error, and no removal of the downloaded
  file is attempted; but the message of the body is \<open>Failed to process shared folder\<close>, not
  \<open>Error processing file\<close> as the README documents. The handler is evaluated here on the
  world in which axios rejects the token request and on the world in which it hands the 401
  response to the code.
\<close>

theorem handler_token_rejected:
  "handler (example_world\<lparr>axios := rejecting_axios\<rparr>) example_event =
     (Returns \<lparr>statusCode = 500,
               body = json_message_error ''Failed to process shared folder''
                        ''Request failed with status code 401''\<rparr>,
      [S3Download ''my-s3-bucket'' ''example.txt'' ''/tmp/download-1730000000000.txt'',
       Http (PostToken (Some ''client'') (Some ''refresh''))]) \<and>
   handler (example_world\<lparr>axios := unauthorized_axios\<rparr>) example_event =
     (Returns \<lparr>statusCode = 500,
               body = json_message_error ''Failed to process shared folder''
                        ''Failed to fetch OneDrive access token.''\<rparr>,
      [S3Download ''my-s3-bucket'' ''example.txt'' ''/tmp/download-1730000000000.txt'',
       Http (PostToken (Some ''client'') (Some ''refresh''))]) \<and>
   json_message_error ''Failed to process shared folder'' ''Request failed with status code 401'' \<noteq>
   json_message_error ''Error processing file'' ''Request failed with status code 401'' \<and>
   filter is_unlink (snd (handler (example_world\<lparr>axios := rejecting_axios\<rparr>) example_event)) = []"
proof -
  have run: "handler (example_world\<lparr>axios := ax\<rparr>) example_event =
     (Returns \<lparr>statusCode = 500,
               body = json_message_error ''Failed to process shared folder'' (message e)\<rparr>,
      [S3Download ''my-s3-bucket'' ''example.txt'' ''/tmp/download-1730000000000.txt'',
       Http (PostToken (Some ''client'') (Some ''refresh''))])"
    if "fst (getOneDriveAccessToken (example_world\<lparr>axios := ax\<rparr>)
          [S3Download ''my-s3-bucket'' ''example.txt'' ''/tmp/download-1730000000000.txt'']) = Throws e"
    for ax e
  proof -
    let ?w = "example_world\<lparr>axios := ax\<rparr>"
    let ?r = "\<lparr>bucket_name = ''my-s3-bucket'', object_key = ''example.txt''\<rparr>"
    let ?p = "''/tmp/download-1730000000000.txt''"
    have res: "resolveSharedFolder ?w (Some ''Reports'') [S3Download (bucket_name ?r) ''example.txt'' ?p] =
        (Throws e, [S3Download (bucket_name ?r) ''example.txt'' ?p] @
           [Http (PostToken (env_AZURE_CLIENT_ID ?w) (env_ONEDRIVE_REFRESH_TOKEN ?w))])"
      by (rule resolve_token_throws) (use that in simp)
    have "handler_try ?w example_event [] =
        (Throws e, [S3Download (bucket_name ?r) ''example.txt'' ?p] @
           [Http (PostToken (env_AZURE_CLIENT_ID ?w) (env_ONEDRIVE_REFRESH_TOKEN ?w))])"
    proof (rule handler_try_resolve_throws [where rs = "[]" and n = 5, OF _ _ _ _ _ _ _ res])
      show "Records example_event = ?r # []"
        by (simp add: example_event_def)
      show "decodeURIComponent (object_key ?r) = Inr ''example.txt''"
        by (simp add: decode_example)
      show "tmp_path (''download-'' @ show_nat (date_now ?w) @ extname ''example.txt'') = ?p"
        using example_path by simp
      show "settled (download_run (s3_streams ?w (bucket_name ?r) ''example.txt'' ?p)) = Fulfilled"
        by (simp add: example_world_fields example_fulfilled)
    qed (simp_all add: example_world_fields)
    then show ?thesis
      by (simp add: handler_of_try example_world_fields)
  qed
  have a: "handler (example_world\<lparr>axios := rejecting_axios\<rparr>) example_event =
     (Returns \<lparr>statusCode = 500,
               body = json_message_error ''Failed to process shared folder''
                        (message (Error ''Request failed with status code 401''))\<rparr>,
      [S3Download ''my-s3-bucket'' ''example.txt'' ''/tmp/download-1730000000000.txt'',
       Http (PostToken (Some ''client'') (Some ''refresh''))])"
    by (rule run) (simp add: token_cases example_world_fields)
  have b: "handler (example_world\<lparr>axios := unauthorized_axios\<rparr>) example_event =
     (Returns \<lparr>statusCode = 500,
               body = json_message_error ''Failed to process shared folder''
                        (message (Error ''Failed to fetch OneDrive access token.''))\<rparr>,
      [S3Download ''my-s3-bucket'' ''example.txt'' ''/tmp/download-1730000000000.txt'',
       Http (PostToken (Some ''client'') (Some ''refresh''))])"
    by (rule run) (simp add: token_cases example_world_fields)
  have c: "json_message_error ''Failed to process shared folder'' ''Request failed with status code 401'' \<noteq>
     json_message_error ''Error processing file'' ''Request failed with status code 401''"
    by (simp add: json_message_error_def json_quote_def json_escape_char_def)
  from a b c show ?thesis by simp
qed

text \<open>
  C3, as the code has it. For every notification key that decodes, the handler uses the
  percent-decoded key for the S3 object read and the same decoded key as the remote file name
  of every upload it issues; an invocation that ends in the success outcome issues exactly one
  upload, under the decoded key.
\<close>

theorem handler_uses_decoded_key:
  assumes "Records ev = r # rs" and "decodeURIComponent (object_key r) = Inr k"
  shows "s3_keys (snd (handler w ev)) = [k] \<and>
     set (upload_names (snd (handler w ev))) \<subseteq> {k} \<and>
     (\<forall>out. fst (handler w ev) = Returns out \<and> statusCode out = 200 \<longrightarrow>
        upload_names (snd (handler w ev)) = [k])"
proof (intro conjI allI impI)
  define p where "p = tmp_path (''download-'' @ show_nat (date_now w) @ extname k)"
  then have path: "tmp_path (''download-'' @ show_nat (date_now w) @ extname k) = p"
    by simp
  from handler_try_trace [OF assms path] obtain a where
    a: "snd (handler_try w ev []) = S3Download (bucket_name r) k p # a"
      "list_all (\<lambda>e. s3_key e = None \<and> (upload_name e = None \<or> upload_name e = Some k)) a"
    by blast
  from quiet_events [OF a(2)] a(1)
  show "s3_keys (snd (handler w ev)) = [k]"
    and "set (upload_names (snd (handler w ev))) \<subseteq> {k}"
    by (simp_all add: handler_trace s3_keys_def upload_names_def List.map_filter_simps)
next
  fix out
  assume ok: "fst (handler w ev) = Returns out \<and> statusCode out = 200"
  then have "handler_try w ev [] = (Returns out, snd (handler w ev))"
    by (auto simp: handler_of_try split: prod.splits completion.splits)
  from handler_try_Returns [OF this] assms
  obtain b p d i toka tokb buf where
    "snd (handler w ev) = [S3Download b k p,
           Http (PostToken (env_AZURE_CLIENT_ID w) (env_ONEDRIVE_REFRESH_TOKEN w)),
           Http (GetSharedWithMe toka),
           Http (PostToken (env_AZURE_CLIENT_ID w) (env_ONEDRIVE_REFRESH_TOKEN w)),
           Http (PutContent d i k tokb buf)]"
    by auto
  then show "upload_names (snd (handler w ev)) = [k]"
    by (simp add: upload_names_def List.map_filter_simps)
qed

theorem handler_uses_decoded_key_witness:
  "s3_keys (snd (handler example_world encoded_event)) = [''a b.txt''] \<and>
   set (upload_names (snd (handler example_world encoded_event))) \<subseteq> {''a b.txt''} \<and>
   upload_names (snd (handler example_world encoded_event)) = [''a b.txt'']"
proof -
  let ?r = "\<lparr>bucket_name = ''my-s3-bucket'', object_key = ''a%20b.txt''\<rparr>"
  have a: "Records encoded_event = ?r # []"
    by (simp add: encoded_event_def)
  have b: "decodeURIComponent (object_key ?r) = Inr ''a b.txt''"
    using decode_encoded by simp
  have run: "fst (handler example_world encoded_event) =
      Returns \<lparr>statusCode = 200,
               body = json_message (''File uploaded successfully to shared folder '' @
                        [CHR 0x22] @ ''Reports'' @ [CHR 0x22])\<rparr>"
    using example_world_run [OF decode_encoded encoded_path, of "''my-s3-bucket''"]
    by (simp add: encoded_event_def)
  from handler_uses_decoded_key [OF a b, of example_world] run show ?thesis
    by simp
qed

text \<open>
  C3 as stated fails: for the key \<open>a%20b.txt\<close> the remote file name of the upload is
  \<open>a b.txt\<close>, not the raw key.
\<close>

theorem upload_name_raw_key_counterexample:
  "Records encoded_event = [\<lparr>bucket_name = ''my-s3-bucket'', object_key = ''a%20b.txt''\<rparr>] \<and>
   s3_keys (snd (handler example_world encoded_event)) = [''a b.txt''] \<and>
   upload_names (snd (handler example_world encoded_event)) = [''a b.txt''] \<and>
   upload_names (snd (handler example_world encoded_event)) \<noteq> [''a%20b.txt'']"
  using example_world_run [OF decode_encoded encoded_path, of "''my-s3-bucket''"]
  by (simp add: encoded_event_def s3_keys_def upload_names_def List.map_filter_simps)

text \<open>
  C4, as the code has it. Let the token request succeed and the shared-items request be
  answered with a listing. When the entries before the first entry whose name is exactly the
  given name and which is a folder are neither null nor undefined, and that entry carries a
  remote item with a parent reference, resolveSharedFolder returns the drive id and the item
  id of that entry, whatever follows it in the listing. When no entry is null or undefined and
  none matches, it fails with the not-found error. Whenever no entry matches, it fails, and
  the handler of an invocation configured with that name issues no upload request.
\<close>

theorem resolveSharedFolder_first_match:
  assumes "axios w (length (filter is_http t))
            (PostToken (env_AZURE_CLIENT_ID w) (env_ONEDRIVE_REFRESH_TOKEN w)) = Returns ra"
    and "status ra = 200" and "get_prop (data ra) ''access_token'' = Returns tok"
    and "axios w (Suc (length (filter is_http t))) (GetSharedWithMe tok) = Returns rb"
    and "get_prop (data rb) ''value'' = Returns (JArr items)"
  shows "(\<forall>pre folder post ri pr d i.
            items = pre @ folder # post \<and>
            (\<forall>x\<in>set pre. is_entry x \<and> \<not> is_named_folder name x) \<and>
            is_named_folder name folder \<and>
            get_prop folder ''remoteItem'' = Returns ri \<and>
            get_prop ri ''parentReference'' = Returns pr \<and>
            get_prop pr ''driveId'' = Returns d \<and> get_prop ri ''id'' = Returns i \<longrightarrow>
            fst (resolveSharedFolder w (Some name) t) = Returns \<lparr>driveId = d, itemId = i\<rparr>) \<and>
         ((\<forall>x\<in>set items. is_entry x \<and> \<not> is_named_folder name x) \<longrightarrow>
            fst (resolveSharedFolder w (Some name) t) = Throws (Error (not_found_message (Some name)))) \<and>
         ((\<forall>x\<in>set items. \<not> is_named_folder name x) \<longrightarrow>
            (\<exists>e. fst (resolveSharedFolder w (Some name) t) = Throws e) \<and>
            (filter is_http t = [] \<and> env_ONEDRIVE_SHARED_FOLDER w = Some name \<longrightarrow>
               (\<forall>ev. filter is_upload_request (snd (handler w ev)) = [])))"
proof (intro conjI allI impI)
  fix pre folder post ri pr d i
  assume h: "items = pre @ folder # post \<and>
            (\<forall>x\<in>set pre. is_entry x \<and> \<not> is_named_folder name x) \<and>
            is_named_folder name folder \<and>
            get_prop folder ''remoteItem'' = Returns ri \<and>
            get_prop ri ''parentReference'' = Returns pr \<and>
            get_prop pr ''driveId'' = Returns d \<and> get_prop ri ''id'' = Returns i"
  have val: "get_prop (data rb) ''value'' = Returns (JArr (pre @ folder # post))"
    using h assms(5) by simp
  have "resolveSharedFolder w (Some name) t =
     (Returns \<lparr>driveId = d, itemId = i\<rparr>,
      t @ [Http (PostToken (env_AZURE_CLIENT_ID w) (env_ONEDRIVE_REFRESH_TOKEN w)),
           Http (GetSharedWithMe tok)])"
    using assms(1-4) val h by (intro resolve_found) auto
  then show "fst (resolveSharedFolder w (Some name) t) = Returns \<lparr>driveId = d, itemId = i\<rparr>"
    by simp
next
  assume all: "\<forall>x\<in>set items. is_entry x \<and> \<not> is_named_folder name x"
  have "resolveSharedFolder w (Some name) t =
     (Throws (Error (not_found_message (Some name))),
      t @ [Http (PostToken (env_AZURE_CLIENT_ID w) (env_ONEDRIVE_REFRESH_TOKEN w)),
           Http (GetSharedWithMe tok)])"
    using assms(1-5) all by (rule resolve_not_found)
  then show "fst (resolveSharedFolder w (Some name) t) = Throws (Error (not_found_message (Some name)))"
    by simp
next
  assume none: "\<forall>x\<in>set items. \<not> is_named_folder name x"
  from resolve_no_match [OF assms(1-5) none]
  show "\<exists>e. fst (resolveSharedFolder w (Some name) t) = Throws e"
    by auto
next
  fix ev
  assume none: "\<forall>x\<in>set items. \<not> is_named_folder name x"
    and start: "filter is_http t = [] \<and> env_ONEDRIVE_SHARED_FOLDER w = Some name"
  let ?P = "Http (PostToken (env_AZURE_CLIENT_ID w) (env_ONEDRIVE_REFRESH_TOKEN w))"
  have tk: "getOneDriveAccessToken w [S3Download b k p] = (Returns tok, [S3Download b k p] @ [?P])"
    for b k p
    by (rule token_ok [OF _ assms(2,3)]) (use assms(1) start in simp)
  have ax: "axios w (length (filter is_http ([S3Download b k p] @ [?P]))) (GetSharedWithMe tok) = Returns rb"
    for b k p
    using assms(4) start by simp
  from array_find_no_match [OF none]
  show "filter is_upload_request (snd (handler w ev)) = []"
  proof
    assume f: "array_find (folder_matches (Some name)) items = Returns JUndefined"
    have "resolveSharedFolder w (env_ONEDRIVE_SHARED_FOLDER w) [S3Download b k p] =
        (Throws (Error (not_found_message (Some name))),
         [S3Download b k p, ?P, Http (GetSharedWithMe tok)])" for b k p
      using resolve_cases [OF tk ax assms(5) f, of b k p] start by simp
    then show ?thesis by (rule handler_no_upload)
  next
    assume "\<exists>e. array_find (folder_matches (Some name)) items = Throws e"
    then obtain e where f: "array_find (folder_matches (Some name)) items = Throws e" ..
    have "resolveSharedFolder w (env_ONEDRIVE_SHARED_FOLDER w) [S3Download b k p] =
        (Throws e, [S3Download b k p, ?P, Http (GetSharedWithMe tok)])" for b k p
      using resolve_find_throws [OF tk ax assms(5) f, of b k p] start by simp
    then show ?thesis by (rule handler_no_upload)
  qed
qed

theorem resolveSharedFolder_first_match_witness:
  "fst (resolveSharedFolder (listing_world [notes_entry, reports_entry, JNull]) (Some ''Reports'') []) =
     Returns \<lparr>driveId = JStr ''DRIVE1'', itemId = JStr ''ITEM1''\<rparr> \<and>
   fst (resolveSharedFolder archive_world (Some ''Archive'') []) =
     Throws (Error (not_found_message (Some ''Archive''))) \<and>
   (\<exists>e. fst (resolveSharedFolder (listing_world [JNull, notes_entry]) (Some ''Reports'') []) = Throws e) \<and>
   filter is_upload_request (snd (handler (listing_world [JNull, notes_entry]) example_event)) = []"
proof -
  let ?ri = "JObj [(''id'', JStr ''ITEM1''), (''parentReference'', JObj [(''driveId'', JStr ''DRIVE1'')])]"
  let ?pr = "JObj [(''driveId'', JStr ''DRIVE1'')]"
  have found: "\<forall>pre folder post ri pr d i.
            [notes_entry, reports_entry, JNull] = pre @ folder # post \<and>
            (\<forall>x\<in>set pre. is_entry x \<and> \<not> is_named_folder ''Reports'' x) \<and>
            is_named_folder ''Reports'' folder \<and>
            get_prop folder ''remoteItem'' = Returns ri \<and>
            get_prop ri ''parentReference'' = Returns pr \<and>
            get_prop pr ''driveId'' = Returns d \<and> get_prop ri ''id'' = Returns i \<longrightarrow>
            fst (resolveSharedFolder (listing_world [notes_entry, reports_entry, JNull])
                   (Some ''Reports'') []) = Returns \<lparr>driveId = d, itemId = i\<rparr>"
    by (rule resolveSharedFolder_first_match [where ra = "token_response ''tokenA''"
          and tok = "JStr ''tokenA''"
          and rb = "\<lparr>status = 200, data = JObj [(''value'', JArr [notes_entry, reports_entry, JNull])]\<rparr>",
          THEN conjunct1])
       (simp_all add: listing_world_fields token_response_def)
  have "[notes_entry, reports_entry, JNull] = [notes_entry] @ reports_entry # [JNull] \<and>
        (\<forall>x\<in>set [notes_entry]. is_entry x \<and> \<not> is_named_folder ''Reports'' x) \<and>
        is_named_folder ''Reports'' reports_entry \<and>
        get_prop reports_entry ''remoteItem'' = Returns ?ri \<and>
        get_prop ?ri ''parentReference'' = Returns ?pr \<and>
        get_prop ?pr ''driveId'' = Returns (JStr ''DRIVE1'') \<and>
        get_prop ?ri ''id'' = Returns (JStr ''ITEM1'')"
    by (simp add: reports_entry_props)
  with found have a: "fst (resolveSharedFolder (listing_world [notes_entry, reports_entry, JNull])
      (Some ''Reports'') []) = Returns \<lparr>driveId = JStr ''DRIVE1'', itemId = JStr ''ITEM1''\<rparr>"
    by blast
  have "(\<forall>x\<in>set [notes_entry, reports_entry]. is_entry x \<and> \<not> is_named_folder ''Archive'' x) \<longrightarrow>
      fst (resolveSharedFolder archive_world (Some ''Archive'') []) =
        Throws (Error (not_found_message (Some ''Archive'')))"
    by (rule resolveSharedFolder_first_match [where ra = "token_response ''tokenA''"
          and tok = "JStr ''tokenA''" and rb = listing_response,
          THEN conjunct2, THEN conjunct1])
       (simp_all add: archive_world_fields token_response_def listing_response_def)
  then have b: "fst (resolveSharedFolder archive_world (Some ''Archive'') []) =
      Throws (Error (not_found_message (Some ''Archive'')))"
    by (simp add: reports_entry_props)
  have "(\<forall>x\<in>set [JNull, notes_entry]. \<not> is_named_folder ''Reports'' x) \<longrightarrow>
      (\<exists>e. fst (resolveSharedFolder (listing_world [JNull, notes_entry]) (Some ''Reports'') []) = Throws e) \<and>
      (filter is_http [] = [] \<and>
       env_ONEDRIVE_SHARED_FOLDER (listing_world [JNull, notes_entry]) = Some ''Reports'' \<longrightarrow>
         (\<forall>ev. filter is_upload_request (snd (handler (listing_world [JNull, notes_entry]) ev)) = []))"
    by (rule resolveSharedFolder_first_match [where ra = "token_response ''tokenA''"
          and tok = "JStr ''tokenA''"
          and rb = "\<lparr>status = 200, data = JObj [(''value'', JArr [JNull, notes_entry])]\<rparr>",
          THEN conjunct2, THEN conjunct2])
       (simp_all add: listing_world_fields token_response_def)
  then have c: "(\<exists>e. fst (resolveSharedFolder (listing_world [JNull, notes_entry]) (Some ''Reports'') []) =
        Throws e) \<and>
      filter is_upload_request (snd (handler (listing_world [JNull, notes_entry]) example_event)) = []"
    by (simp add: reports_entry_props listing_world_fields)
  from a b c show ?thesis by blast
qed

text \<open>
  C4 as stated fails on some listings: with a null entry before the folder, and with a first
  matching entry that carries no remote item, a property read throws a TypeError where the
  claim promises the ids of the folder; with a null entry in a listing without a match, the
  error is that TypeError and not the not-found error.
\<close>

theorem resolveSharedFolder_listing_counterexample:
  "is_named_folder ''Reports'' reports_entry \<and>
   fst (resolveSharedFolder (listing_world [JNull, reports_entry]) (Some ''Reports'') []) =
     Throws (TypeError (cannot_read ''null'' ''name'')) \<and>
   is_named_folder ''Reports'' bare_reports_entry \<and>
   fst (resolveSharedFolder (listing_world [bare_reports_entry, reports_entry]) (Some ''Reports'') []) =
     Throws (TypeError (cannot_read ''undefined'' ''parentReference'')) \<and>
   fst (resolveSharedFolder (listing_world [JNull]) (Some ''Archive'') []) =
     Throws (TypeError (cannot_read ''null'' ''name''))"
proof -
  have ax: "axios (listing_world items)
      (length (filter is_http [Http (PostToken (Some ''client'') (Some ''refresh''))]))
      (GetSharedWithMe (JStr ''tokenA'')) =
      Returns \<lparr>status = 200, data = JObj [(''value'', JArr items)]\<rparr>" for items
    by (simp add: listing_world_fields)
  have val: "get_prop (data \<lparr>status = 200, data = JObj [(''value'', JArr items)]\<rparr>) ''value'' =
      Returns (JArr items)" for items
    by simp
  have f1: "array_find (folder_matches (Some ''Reports'')) [JNull, reports_entry] =
      Throws (TypeError (cannot_read ''null'' ''name''))"
    by (simp add: folder_matches_def)
  have f2: "array_find (folder_matches (Some ''Reports'')) [bare_reports_entry, reports_entry] =
      Returns bare_reports_entry"
    by (simp add: folder_matches_def strict_eq_env_def bare_reports_entry_def)
  have f3: "array_find (folder_matches (Some ''Archive'')) [JNull] =
      Throws (TypeError (cannot_read ''null'' ''name''))"
    by (simp add: folder_matches_def)
  have a: "fst (resolveSharedFolder (listing_world [JNull, reports_entry]) (Some ''Reports'') []) =
     Throws (TypeError (cannot_read ''null'' ''name''))"
    using resolve_find_throws [OF listing_world_token ax val f1] by simp
  have b: "fst (resolveSharedFolder (listing_world [bare_reports_entry, reports_entry])
      (Some ''Reports'') []) = Throws (TypeError (cannot_read ''undefined'' ''parentReference''))"
    using resolve_cases [OF listing_world_token ax val f2] by (simp add: bare_reports_entry_def)
  have c: "fst (resolveSharedFolder (listing_world [JNull]) (Some ''Archive'') []) =
     Throws (TypeError (cannot_read ''null'' ''name''))"
    using resolve_find_throws [OF listing_world_token ax val f3] by simp
  from a b c show ?thesis
    by (simp add: reports_entry_props bare_reports_entry_def)
qed

text \<open>
  C5. When the downloaded file has size 0, the handler returns the failure outcome, with the
  error \<open>Downloaded file is empty.\<close>, and the only effect of the invocation is the
  download: no HTTP request at all, so no shared-items request and no upload request.
\<close>

theorem handler_empty_file:
  assumes "Records ev = r # rs" and "decodeURIComponent (object_key r) = Inr k"
    and "p = tmp_path (''download-'' @ show_nat (date_now w) @ extname k)"
    and "settled (download_run (s3_streams w (bucket_name r) k p)) = Fulfilled"
    and "fs_stat w p = Returns 0"
  shows "handler w ev =
     (Returns \<lparr>statusCode = 500,
               body = json_message_error ''Failed to process shared folder''
                        ''Downloaded file is empty.''\<rparr>,
      [S3Download (bucket_name r) k p]) \<and>
     filter is_http (snd (handler w ev)) = [] \<and>
     filter is_shared_request (snd (handler w ev)) = [] \<and>
     filter is_upload_request (snd (handler w ev)) = []"
  using assms by (simp add: handler_of_try handler_try_def Let_def bind_io_def download_apply)

theorem handler_empty_file_witness:
  "handler (example_world\<lparr>fs_stat := (\<lambda>p. Returns 0)\<rparr>) example_event =
     (Returns \<lparr>statusCode = 500,
               body = json_message_error ''Failed to process shared folder''
                        ''Downloaded file is empty.''\<rparr>,
      [S3Download ''my-s3-bucket'' ''example.txt'' ''/tmp/download-1730000000000.txt'']) \<and>
   filter is_shared_request
     (snd (handler (example_world\<lparr>fs_stat := (\<lambda>p. Returns 0)\<rparr>) example_event)) = [] \<and>
   filter is_upload_request
     (snd (handler (example_world\<lparr>fs_stat := (\<lambda>p. Returns 0)\<rparr>) example_event)) = []"
proof -
  let ?w = "example_world\<lparr>fs_stat := (\<lambda>p. Returns 0)\<rparr>"
  let ?r = "\<lparr>bucket_name = ''my-s3-bucket'', object_key = ''example.txt''\<rparr>"
  have a: "Records example_event = ?r # []"
    by (simp add: example_event_def)
  have b: "decodeURIComponent (object_key ?r) = Inr ''example.txt''"
    by (simp add: decode_example)
  have c: "''/tmp/download-1730000000000.txt'' =
      tmp_path (''download-'' @ show_nat (date_now ?w) @ extname ''example.txt'')"
    using example_path by simp
  have d: "settled (download_run (s3_streams ?w (bucket_name ?r) ''example.txt''
      ''/tmp/download-1730000000000.txt'')) = Fulfilled"
    by (simp add: example_world_fields example_fulfilled)
  have e: "fs_stat ?w ''/tmp/download-1730000000000.txt'' = Returns 0"
    by simp
  show ?thesis
    using handler_empty_file [OF a b c d e] by simp
qed

text \<open>
  C6, as the code has it. getOneDriveAccessToken propagates unchanged whatever axios rejects
  with, and fails with \<open>Failed to fetch OneDrive access token.\<close> when the response has a
  status other than 200. When the response has status 200 and its body is an object without
  the field \<open>access_token\<close>, it does not fail: it returns undefined.
\<close>

theorem token_fetch_failures:
  "(axios w (length (filter is_http t))
      (PostToken (env_AZURE_CLIENT_ID w) (env_ONEDRIVE_REFRESH_TOKEN w)) = Throws e \<longrightarrow>
      fst (getOneDriveAccessToken w t) = Throws e) \<and>
   (axios w (length (filter is_http t))
      (PostToken (env_AZURE_CLIENT_ID w) (env_ONEDRIVE_REFRESH_TOKEN w)) = Returns r \<and>
      status r \<noteq> 200 \<longrightarrow>
      fst (getOneDriveAccessToken w t) = Throws (Error ''Failed to fetch OneDrive access token.'')) \<and>
   (axios w (length (filter is_http t))
      (PostToken (env_AZURE_CLIENT_ID w) (env_ONEDRIVE_REFRESH_TOKEN w)) = Returns r \<and>
      status r = 200 \<and> data r = JObj kvs \<and> map_of kvs ''access_token'' = None \<longrightarrow>
      fst (getOneDriveAccessToken w t) = Returns JUndefined)"
  by (simp add: token_cases)

theorem token_fetch_failures_witness:
  "fst (getOneDriveAccessToken (example_world\<lparr>axios := rejecting_axios\<rparr>) []) =
     Throws (Error ''Request failed with status code 401'') \<and>
   fst (getOneDriveAccessToken (example_world\<lparr>axios := unauthorized_axios\<rparr>) []) =
     Throws (Error ''Failed to fetch OneDrive access token.'') \<and>
   fst (getOneDriveAccessToken (example_world\<lparr>axios := no_token_axios\<rparr>) []) = Returns JUndefined"
proof -
  note a = token_fetch_failures [of "example_world\<lparr>axios := rejecting_axios\<rparr>" "[]"
      "Error ''Request failed with status code 401''"]
  note b = token_fetch_failures [of "example_world\<lparr>axios := unauthorized_axios\<rparr>" "[]" _
      "\<lparr>status = 401, data = JObj [(''error'', JStr ''invalid_grant'')]\<rparr>"]
  note c = token_fetch_failures [of "example_world\<lparr>axios := no_token_axios\<rparr>" "[]" _
      "\<lparr>status = 200, data = JObj [(''token_type'', JStr ''Bearer'')]\<rparr>"
      "[(''token_type'', JStr ''Bearer'')]"]
  have "fst (getOneDriveAccessToken (example_world\<lparr>axios := rejecting_axios\<rparr>) []) =
     Throws (Error ''Request failed with status code 401'')"
    using a by simp
  moreover have "fst (getOneDriveAccessToken (example_world\<lparr>axios := unauthorized_axios\<rparr>) []) =
     Throws (Error ''Failed to fetch OneDrive access token.'')"
    using b by simp
  moreover have "fst (getOneDriveAccessToken (example_world\<lparr>axios := no_token_axios\<rparr>) []) = Returns JUndefined"
    using c by simp
  ultimately show ?thesis by blast
qed

text \<open>
  C6 as stated fails: on a 200 response whose body lacks \<open>access_token\<close> the function
  returns undefined instead of failing.
\<close>

theorem token_missing_field_counterexample:
  "axios (example_world\<lparr>axios := no_token_axios\<rparr>) 0 (PostToken (Some ''client'') (Some ''refresh'')) =
     Returns \<lparr>status = 200, data = JObj [(''token_type'', JStr ''Bearer'')]\<rparr> \<and>
   map_of [(''token_type'', JStr ''Bearer'')] ''access_token'' = None \<and>
   getOneDriveAccessToken (example_world\<lparr>axios := no_token_axios\<rparr>) [] =
     (Returns JUndefined, [Http (PostToken (Some ''client'') (Some ''refresh''))])"
  by (simp add: token_cases example_world_fields)




text \<open>
  C8. In every invocation that ends in the success outcome the token is requested exactly
  twice, once before the shared-items request and once before the upload; the shared-items
  request carries the token answered to the first request (HTTP request number 0) and the
  upload carries the token answered to the second one (HTTP request number 2): nothing is
  kept from the first fetch.
\<close>

theorem token_fetched_twice:
  assumes "handler w ev = (Returns out, t)" and "statusCode out = 200"
  shows "length (filter is_token_request t) = 2 \<and>
     (\<exists>b k p toka tokb d i buf ra rc.
        t = [S3Download b k p,
             Http (PostToken (env_AZURE_CLIENT_ID w) (env_ONEDRIVE_REFRESH_TOKEN w)),
             Http (GetSharedWithMe toka),
             Http (PostToken (env_AZURE_CLIENT_ID w) (env_ONEDRIVE_REFRESH_TOKEN w)),
             Http (PutContent d i k tokb buf)] \<and>
        axios w 0 (PostToken (env_AZURE_CLIENT_ID w) (env_ONEDRIVE_REFRESH_TOKEN w)) = Returns ra \<and>
        get_prop (data ra) ''access_token'' = Returns toka \<and>
        axios w 2 (PostToken (env_AZURE_CLIENT_ID w) (env_ONEDRIVE_REFRESH_TOKEN w)) = Returns rc \<and>
        get_prop (data rc) ''access_token'' = Returns tokb)"
proof -
  from assms have "handler_try w ev [] = (Returns out, t)"
    by (auto simp: handler_of_try split: prod.splits completion.splits)
  from handler_try_Returns [OF this] obtain r :: notification
    and k p d i toka tokb buf ra rc where
    t: "t = [S3Download (bucket_name r) k p,
           Http (PostToken (env_AZURE_CLIENT_ID w) (env_ONEDRIVE_REFRESH_TOKEN w)),
           Http (GetSharedWithMe toka),
           Http (PostToken (env_AZURE_CLIENT_ID w) (env_ONEDRIVE_REFRESH_TOKEN w)),
           Http (PutContent d i k tokb buf)]"
    and ax: "axios w 0 (PostToken (env_AZURE_CLIENT_ID w) (env_ONEDRIVE_REFRESH_TOKEN w)) = Returns ra"
      "get_prop (data ra) ''access_token'' = Returns toka"
      "axios w 2 (PostToken (env_AZURE_CLIENT_ID w) (env_ONEDRIVE_REFRESH_TOKEN w)) = Returns rc"
      "get_prop (data rc) ''access_token'' = Returns tokb"
    by blast
  from t have "length (filter is_token_request t) = 2"
    by simp
  with t ax show ?thesis by blast
qed

theorem token_fetched_twice_witness:
  "length (filter is_token_request (snd (handler example_world example_event))) = 2 \<and>
   (\<exists>b k p toka tokb d i buf ra rc.
      snd (handler example_world example_event) =
        [S3Download b k p,
         Http (PostToken (env_AZURE_CLIENT_ID example_world) (env_ONEDRIVE_REFRESH_TOKEN example_world)),
         Http (GetSharedWithMe toka),
         Http (PostToken (env_AZURE_CLIENT_ID example_world) (env_ONEDRIVE_REFRESH_TOKEN example_world)),
         Http (PutContent d i k tokb buf)] \<and>
      axios example_world 0
        (PostToken (env_AZURE_CLIENT_ID example_world) (env_ONEDRIVE_REFRESH_TOKEN example_world)) = Returns ra \<and>
      get_prop (data ra) ''access_token'' = Returns toka \<and>
      axios example_world 2
        (PostToken (env_AZURE_CLIENT_ID example_world) (env_ONEDRIVE_REFRESH_TOKEN example_world)) = Returns rc \<and>
      get_prop (data rc) ''access_token'' = Returns tokb)"
proof -
  have run: "handler example_world example_event =
     (Returns \<lparr>statusCode = 200,
               body = json_message (''File uploaded successfully to shared folder '' @
                        [CHR 0x22] @ ''Reports'' @ [CHR 0x22])\<rparr>,
      snd (handler example_world example_event))"
    using example_world_run [OF decode_example example_path, of "''my-s3-bucket''"]
    by (simp add: example_event_def)
  have ok: "statusCode \<lparr>statusCode = 200,
               body = json_message (''File uploaded successfully to shared folder '' @
                        [CHR 0x22] @ ''Reports'' @ [CHR 0x22])\<rparr> = 200"
    by simp
  show ?thesis
    by (rule token_fetched_twice [OF run ok])
qed






end
